theory Spec2Isabelle
  imports
    Main
    "HOL-Library.Word"
    "HOL-Library.Char_ord"
    "HOL-Library.List_Lexorder"
    "HOL-Library.AList"
begin

section \<open>Errors\<close>

text \<open>
  Go's \<open>error\<close> values. \<open>Canceled\<close> is \<open>context.Canceled\<close>, the only error a context
  made by \<open>context.WithCancel(context.TODO())\<close> can report. \<open>Errorf\<close> carries the text
  built by \<open>fmt.Errorf\<close>, \<open>Failure\<close> an error produced by a collaborator (HTTP client,
  JSON decoder, URL parser, dialer, hub protocol), \<open>Panic\<close> a run-time panic,
  \<open>EscapeError\<close> and \<open>SemicolonError\<close> the two errors of \<open>net/url\<close>'s query parser.
\<close>

datatype error =
    Canceled
  | Errorf string
  | Failure string
  | Panic string
  | EscapeError string
  | SemicolonError

section \<open>hubconnection.go\<close>

subsection \<open>Data\<close>

text \<open>
  The context of a hub connection is \<open>context.WithCancel(context.TODO())\<close>: its parent is
  never done, so the context is done exactly when its cancel function has been called.
\<close>

datatype ctx = Ctx (is_done: bool)

definition WithCancel_TODO :: ctx where
  "WithCancel_TODO = Ctx False"

definition cancel :: "ctx \<Rightarrow> ctx" where
  "cancel c = Ctx True"

definition ctx_Err :: "ctx \<Rightarrow> error option" where
  "ctx_Err c = (if is_done c then Some Canceled else None)"

text \<open>The close message, with the fields the struct literal in \<open>Close\<close> sets.\<close>

record closeMessage =
  Type :: int
  Error :: string
  AllowReconnect :: bool

text \<open>
  The values handed to \<open>writeMessage\<close> (an \<open>interface{}\<close> in the source): one constructor
  per struct literal of the typed senders, fields in the order of the literals.
  \<open>'v\<close> is the type of the opaque \<open>interface{}\<close> payloads.
\<close>

datatype 'v message =
    SendOnlyHubInvocationMessage int string "'v list"
  | StreamItemMessage int string 'v
  | CompletionMessage int string 'v string
  | HubMessage int
  | CloseMessage closeMessage

text \<open>
  \<open>HubProtocol.WriteMessage(message, connection)\<close>: the protocol is a collaborator, so it is
  a parameter. It serialises the message onto the connection, whose state \<open>'c\<close> it may
  change, and returns an error or nil.
\<close>

record ('c, 'v) HubProtocol =
  WriteMessage :: "'v message \<Rightarrow> 'c \<Rightarrow> error option \<times> 'c"

text \<open>
  The struct \<open>defaultHubConnection\<close>. \<open>Connected\<close> is an \<open>int32\<close>. \<open>items\<close> is a Go map,
  that is a reference: the field holds the address of the map in a heap of maps.
  The fields \<open>context\<close> and \<open>abort\<close> are the two halves of one cancellable context,
  held here in the one field \<open>ctxt\<close>.
\<close>

record ('c, 'v) defaultHubConnection =
  Protocol :: "('c, 'v) HubProtocol"
  Connected :: "32 word"
  Connection :: 'c
  maximumReceiveMessageSize :: int
  items :: nat
  ctxt :: ctx

type_synonym 'v items_heap = "(string \<rightharpoonup> 'v) list"

subsection \<open>Operations\<close>

definition newHubConnection ::
  "'c \<Rightarrow> ('c, 'v) HubProtocol \<Rightarrow> int \<Rightarrow> 'v items_heap
     \<Rightarrow> ('c, 'v) defaultHubConnection \<times> 'v items_heap" where
  "newHubConnection connection protocol maxSize heap =
     (\<lparr> Protocol = protocol,
        Connected = 0,
        Connection = connection,
        maximumReceiveMessageSize = maxSize,
        items = length heap,
        ctxt = WithCancel_TODO \<rparr>,
      heap @ [Map.empty])"

definition Items :: "('c, 'v) defaultHubConnection \<Rightarrow> nat" where
  "Items c = items c"

text \<open>What a caller does with the reference \<open>Items()\<close> returned: read and assign entries.\<close>

definition map_index :: "'v items_heap \<Rightarrow> nat \<Rightarrow> string \<Rightarrow> 'v option" where
  "map_index heap r k = (if r < length heap then (heap ! r) k else None)"

definition map_assign :: "'v items_heap \<Rightarrow> nat \<Rightarrow> string \<Rightarrow> 'v \<Rightarrow> 'v items_heap" where
  "map_assign heap r k v = (if r < length heap then heap[r := (heap ! r)(k \<mapsto> v)] else heap)"

definition Start :: "('c, 'v) defaultHubConnection \<Rightarrow> ('c, 'v) defaultHubConnection" where
  "Start c = (if Connected c = 0 then c\<lparr>Connected := 1\<rparr> else c)"

definition IsConnected :: "('c, 'v) defaultHubConnection \<Rightarrow> bool" where
  "IsConnected c \<longleftrightarrow> Connected c = 1"

definition Context_of :: "('c, 'v) defaultHubConnection \<Rightarrow> ctx" where
  "Context_of c = ctxt c"

definition Abort :: "('c, 'v) defaultHubConnection \<Rightarrow> ('c, 'v) defaultHubConnection" where
  "Abort c = (let c1 = c\<lparr>ctxt := cancel (ctxt c)\<rparr> in c1\<lparr>Connected := 0\<rparr>)"

text \<open>
  \<open>writeMessage\<close> starts the protocol's write and then selects between the context's
  \<open>Done\<close> channel and the result channel \<open>e\<close>. The write is started in every case. Which
  case of the \<open>select\<close> is taken is the scheduler's choice, given here as a parameter: the
  \<open>Done\<close> case can only be taken when the context is done, and then the call waits for the
  write's result, drops it and returns the context's error.
  The model is sequential: the context does not change during the call, and the
  protocol's write returns. \<open>Receive\<close>, whose outcome is the interleaving of its reading
  goroutine with the caller, has no counterpart here.
\<close>

datatype select_case = DoneCase | ResultCase

definition writeMessage ::
  "('c, 'v) defaultHubConnection \<Rightarrow> 'v message \<Rightarrow> select_case
     \<Rightarrow> error option \<times> ('c, 'v) defaultHubConnection" where
  "writeMessage c msg sel =
     (let (err, conn) = WriteMessage (Protocol c) msg (Connection c);
          c' = c\<lparr>Connection := conn\<rparr>
      in if is_done (ctxt c) \<and> sel = DoneCase then (ctx_Err (ctxt c), c')
         else (err, c'))"

definition Close ::
  "('c, 'v) defaultHubConnection \<Rightarrow> string \<Rightarrow> select_case
     \<Rightarrow> (closeMessage \<times> error option) \<times> ('c, 'v) defaultHubConnection" where
  "Close c error sel =
     (let c1 = c\<lparr>Connected := 0\<rparr>;
          closeMessage = \<lparr> Type = 7, Error = error, AllowReconnect = True \<rparr>;
          (err, c2) = writeMessage c1 (CloseMessage closeMessage) sel
      in ((closeMessage, err), c2))"

definition SendInvocation ::
  "('c, 'v) defaultHubConnection \<Rightarrow> string \<Rightarrow> 'v list \<Rightarrow> select_case
     \<Rightarrow> ('v message \<times> error option) \<times> ('c, 'v) defaultHubConnection" where
  "SendInvocation c target args sel =
     (let invocationMessage = SendOnlyHubInvocationMessage 1 target args;
          (err, c') = writeMessage c invocationMessage sel
      in ((invocationMessage, err), c'))"

definition StreamItem ::
  "('c, 'v) defaultHubConnection \<Rightarrow> string \<Rightarrow> 'v \<Rightarrow> select_case
     \<Rightarrow> ('v message \<times> error option) \<times> ('c, 'v) defaultHubConnection" where
  "StreamItem c ident item sel =
     (let streamItemMessage = StreamItemMessage 2 ident item;
          (err, c') = writeMessage c streamItemMessage sel
      in ((streamItemMessage, err), c'))"

definition Completion ::
  "('c, 'v) defaultHubConnection \<Rightarrow> string \<Rightarrow> 'v \<Rightarrow> string \<Rightarrow> select_case
     \<Rightarrow> ('v message \<times> error option) \<times> ('c, 'v) defaultHubConnection" where
  "Completion c ident result error sel =
     (let completionMessage = CompletionMessage 3 ident result error;
          (err, c') = writeMessage c completionMessage sel
      in ((completionMessage, err), c'))"

definition Ping ::
  "('c, 'v) defaultHubConnection \<Rightarrow> select_case
     \<Rightarrow> ('v message \<times> error option) \<times> ('c, 'v) defaultHubConnection" where
  "Ping c sel =
     (let pingMessage = HubMessage 6;
          (err, c') = writeMessage c pingMessage sel
      in ((pingMessage, err), c'))"

subsection \<open>Sequences of calls\<close>

text \<open>
  A caller's use of one hub connection, as the list of the state-changing methods it
  calls, each with its arguments and the scheduler's choice in the \<open>select\<close>.
\<close>

datatype 'v call =
    CallStart
  | CallClose string select_case
  | CallAbort
  | CallSendInvocation string "'v list" select_case
  | CallStreamItem string 'v select_case
  | CallCompletion string 'v string select_case
  | CallPing select_case

fun step :: "('c, 'v) defaultHubConnection \<Rightarrow> 'v call \<Rightarrow> ('c, 'v) defaultHubConnection" where
  "step c CallStart = Start c"
| "step c (CallClose e sel) = snd (Close c e sel)"
| "step c CallAbort = Abort c"
| "step c (CallSendInvocation t as sel) = snd (SendInvocation c t as sel)"
| "step c (CallStreamItem i x sel) = snd (StreamItem c i x sel)"
| "step c (CallCompletion i r e sel) = snd (Completion c i r e sel)"
| "step c (CallPing sel) = snd (Ping c sel)"

fun run :: "('c, 'v) defaultHubConnection \<Rightarrow> 'v call list \<Rightarrow> ('c, 'v) defaultHubConnection" where
  "run c [] = c"
| "run c (x # xs) = run (step c x) xs"

text \<open>
  A protocol for concrete runs: the connection state is the list of messages written
  so far, and a write fails with the given error once that list has \<open>n\<close> entries.
\<close>

definition logProtocol :: "nat \<Rightarrow> ('v message list, 'v) HubProtocol" where
  "logProtocol n =
     \<lparr> WriteMessage = (\<lambda>m wire.
         if length wire < n then (None, wire @ [m]) else (Some (Failure ''write''), wire)) \<rparr>"

section \<open>Go's standard library, as far as the connection code calls it\<close>

subsection \<open>net/url: query escaping\<close>

text \<open>
  Strings are byte strings, as in Go. \<open>ishex\<close>, \<open>unhex\<close>, \<open>shouldEscape\<close> (in the mode
  \<open>encodeQueryComponent\<close>, the only one \<open>QueryEscape\<close> and \<open>QueryUnescape\<close> use) and the
  table \<open>upperhex\<close> are those of \<open>net/url\<close>. \<open>unhex\<close> is only called on hex digits.
\<close>

definition ishex :: "char \<Rightarrow> bool" where
  "ishex c \<longleftrightarrow>
     (CHR ''0'' \<le> c \<and> c \<le> CHR ''9'') \<or> (CHR ''a'' \<le> c \<and> c \<le> CHR ''f'')
     \<or> (CHR ''A'' \<le> c \<and> c \<le> CHR ''F'')"

definition unhex :: "char \<Rightarrow> nat" where
  "unhex c =
     (if CHR ''0'' \<le> c \<and> c \<le> CHR ''9'' then of_char c - of_char CHR ''0''
      else if CHR ''a'' \<le> c \<and> c \<le> CHR ''f'' then of_char c - of_char CHR ''a'' + 10
      else if CHR ''A'' \<le> c \<and> c \<le> CHR ''F'' then of_char c - of_char CHR ''A'' + 10
      else 0)"

definition upperhex :: string where
  "upperhex = ''0123456789ABCDEF''"

definition shouldEscape :: "char \<Rightarrow> bool" where
  "shouldEscape c \<longleftrightarrow>
     \<not> ((CHR ''a'' \<le> c \<and> c \<le> CHR ''z'') \<or> (CHR ''A'' \<le> c \<and> c \<le> CHR ''Z'')
        \<or> (CHR ''0'' \<le> c \<and> c \<le> CHR ''9'')
        \<or> c = CHR ''-'' \<or> c = CHR ''_'' \<or> c = CHR ''.'' \<or> c = CHR ''~'')"

text \<open>
  \<open>QueryEscape\<close>: a space becomes \<open>+\<close>, any other byte that must be escaped becomes
  \<open>%XX\<close> with \<open>XX = upperhex[c>>4], upperhex[c&15]\<close>, every other byte stays.
\<close>

fun QueryEscape :: "string \<Rightarrow> string" where
  "QueryEscape [] = []"
| "QueryEscape (c # s) =
     (if c = CHR '' '' then CHR ''+'' # QueryEscape s
      else if shouldEscape c
        then CHR ''%'' # upperhex ! (of_char c div 16) # upperhex ! (of_char c mod 16)
               # QueryEscape s
      else c # QueryEscape s)"

text \<open>
  \<open>QueryUnescape\<close> makes two passes. The first (\<open>bad_escape\<close>) looks for a \<open>%\<close> that is
  not followed by two hex digits and reports the offending piece; the second
  (\<open>unescape_bytes\<close>) runs only when there is none, and decodes: \<open>%XX\<close> to the byte
  \<open>unhex X << 4 | unhex X\<close> (which is \<open>16 * unhex X + unhex X\<close>, both digits being below
  16), \<open>+\<close> to a space.
\<close>

fun bad_escape :: "string \<Rightarrow> string option" where
  "bad_escape [] = None"
| "bad_escape (c # s) =
     (if c = CHR ''%'' then
        (case s of
           a # b # t \<Rightarrow> if ishex a \<and> ishex b then bad_escape t else Some (take 3 (c # s))
         | _ \<Rightarrow> Some (take 3 (c # s)))
      else bad_escape s)"

fun unescape_bytes :: "string \<Rightarrow> string" where
  "unescape_bytes [] = []"
| "unescape_bytes (c # s) =
     (if c = CHR ''%'' then
        (case s of
           a # b # t \<Rightarrow> char_of (unhex a * 16 + unhex b) # unescape_bytes t
         | _ \<Rightarrow> [])
      else if c = CHR ''+'' then CHR '' '' # unescape_bytes s
      else c # unescape_bytes s)"

definition QueryUnescape :: "string \<Rightarrow> error + string" where
  "QueryUnescape s =
     (case bad_escape s of
        Some bad \<Rightarrow> Inl (EscapeError bad)
      | None \<Rightarrow> Inr (unescape_bytes s))"

subsection \<open>net/url: Values\<close>

text \<open>
  \<open>strings.Cut(s, sep)\<close> for a separator of one byte: the text before the first \<open>sep\<close>,
  the text after it, and whether \<open>sep\<close> occurs.
\<close>

definition Cut :: "string \<Rightarrow> char \<Rightarrow> string \<times> string \<times> bool" where
  "Cut s sep =
     (if sep \<in> set s
      then (takeWhile (\<lambda>c. c \<noteq> sep) s, tl (dropWhile (\<lambda>c. c \<noteq> sep) s), True)
      else (s, [], False))"

text \<open>
  \<open>url.Values\<close> is a \<open>map[string][]string\<close>; it is an association list here, so that
  \<open>Encode\<close> can enumerate and sort its keys. \<open>Values_index v k\<close> is the Go expression
  \<open>v[k]\<close> (no values for an absent key), \<open>Values_Set\<close> is \<open>v.Set(k, x)\<close>, and
  \<open>Values_append\<close> is the statement \<open>m[key] = append(m[key], value)\<close> of the parser.
\<close>

type_synonym Values = "(string \<times> string list) list"

definition Values_index :: "Values \<Rightarrow> string \<Rightarrow> string list" where
  "Values_index v k = (case map_of v k of None \<Rightarrow> [] | Some vs \<Rightarrow> vs)"

definition Values_Set :: "Values \<Rightarrow> string \<Rightarrow> string \<Rightarrow> Values" where
  "Values_Set v k x = AList.update k [x] v"

definition Values_append :: "Values \<Rightarrow> string \<Rightarrow> string \<Rightarrow> Values" where
  "Values_append v k x = AList.update k (Values_index v k @ [x]) v"

definition Values_keys :: "Values \<Rightarrow> string list" where
  "Values_keys v = remdups (map fst v)"

text \<open>
  The body of the loop of \<open>parseQuery\<close> for one \<open>&\<close>-separated piece: a piece with a
  semicolon sets the error and is skipped, an empty piece is skipped, and a piece whose key
  or value does not unescape is skipped, the first such error being kept.
\<close>

definition parse_pair :: "Values \<Rightarrow> error option \<Rightarrow> string \<Rightarrow> Values \<times> error option" where
  "parse_pair m err key =
     (if CHR '';'' \<in> set key then (m, Some SemicolonError)
      else if key = [] then (m, err)
      else
        let (key, val, _) = Cut key CHR ''='' in
        case QueryUnescape key of
          Inl err1 \<Rightarrow> (m, if err = None then Some err1 else err)
        | Inr key1 \<Rightarrow>
            (case QueryUnescape val of
               Inl err1 \<Rightarrow> (m, if err = None then Some err1 else err)
             | Inr val1 \<Rightarrow> (Values_append m key1 val1, err)))"

text \<open>The loop \<open>for query != ""\<close> of \<open>parseQuery\<close>; each round cuts one piece off.\<close>

function parseQuery :: "Values \<Rightarrow> string \<Rightarrow> error option \<Rightarrow> Values \<times> error option" where
  "parseQuery m query err =
     (if query = [] then (m, err)
      else
        let key = fst (Cut query CHR ''&'');
            rest = fst (snd (Cut query CHR ''&''));
            (m', err') = parse_pair m err key
        in parseQuery m' rest err')"
  by pat_completeness auto
termination
proof (relation "measure (\<lambda>(m, q, e). length q)", goal_cases)
  case 1
  show ?case by simp
next
  case (2 m query err key rest p m' err')
  have "length (fst (snd (Cut query CHR ''&''))) < length query"
  proof (cases "CHR ''&'' \<in> set query")
    case True
    then have "dropWhile (\<lambda>c. c \<noteq> CHR ''&'') query \<noteq> []"
      by simp
    then have "length (tl (dropWhile (\<lambda>c. c \<noteq> CHR ''&'') query))
        < length (dropWhile (\<lambda>c. c \<noteq> CHR ''&'') query)"
      by (cases "dropWhile (\<lambda>c. c \<noteq> CHR ''&'') query") simp_all
    also have "\<dots> \<le> length query"
      by (rule length_dropWhile_le)
    finally show ?thesis
      using True by (simp add: Cut_def)
  next
    case False
    with 2(1) show ?thesis
      by (simp add: Cut_def)
  qed
  with 2 show ?case by simp
qed

definition ParseQuery :: "string \<Rightarrow> Values \<times> error option" where
  "ParseQuery query = parseQuery [] query None"

text \<open>
  \<open>Values.Encode\<close>: nothing for an empty map; otherwise the keys are sorted (bytewise,
  as \<open>slices.Sort\<close> sorts strings) and for every value of every key the buffer receives
  \<open>&\<close>, unless it is still empty, and then \<open>QueryEscape(k) = QueryEscape(v)\<close>.
\<close>

definition encode_value :: "string \<Rightarrow> string \<Rightarrow> string \<Rightarrow> string" where
  "encode_value keyEscaped buf v =
     (if buf \<noteq> [] then buf @ ''&'' else buf) @ keyEscaped @ ''='' @ QueryEscape v"

definition encode_key :: "Values \<Rightarrow> string \<Rightarrow> string \<Rightarrow> string" where
  "encode_key v buf k = foldl (encode_value (QueryEscape k)) buf (Values_index v k)"

definition Encode :: "Values \<Rightarrow> string" where
  "Encode v = (if v = [] then [] else foldl (encode_key v) [] (sort (Values_keys v)))"

text \<open>
  Three notions for reasoning about \<open>Encode\<close>: the text \<open>Encode\<close> writes for one key
  and value, the way it joins two texts, and the key-value pairs of a map in the order
  of a list of keys.
\<close>

definition enc_pair :: "string \<times> string \<Rightarrow> string" where
  "enc_pair kv = QueryEscape (fst kv) @ ''='' @ QueryEscape (snd kv)"

definition amp_join :: "string \<Rightarrow> string \<Rightarrow> string" where
  "amp_join buf p = (if buf \<noteq> [] then buf @ ''&'' else buf) @ p"

definition pairs_of :: "Values \<Rightarrow> string list \<Rightarrow> (string \<times> string) list" where
  "pairs_of v ks = concat (map (\<lambda>k. map (Pair k) (Values_index v k)) ks)"

text \<open>
  The type \<open>url.URL\<close>. The connection code reads and writes \<open>Scheme\<close> and \<open>RawQuery\<close>
  only; \<open>Other\<close> stands for all the other fields. \<open>URL.Query()\<close> parses \<open>RawQuery\<close>
  and drops the parser's error.
\<close>

record 'u URL =
  Scheme :: string
  RawQuery :: string
  Other :: 'u

definition URL_Query :: "'u URL \<Rightarrow> Values" where
  "URL_Query u = fst (ParseQuery (RawQuery u))"

subsection \<open>strings.ReplaceAll\<close>

text \<open>
  \<open>strings.ReplaceAll(s, old, new)\<close> for a non-empty \<open>old\<close> (the source's one call passes
  \<open>"Bearer "\<close>): every occurrence of \<open>old\<close>, found from the left and not overlapping an
  earlier one, is replaced by \<open>new\<close>.
\<close>

function ReplaceAll :: "string \<Rightarrow> string \<Rightarrow> string \<Rightarrow> string" where
  "ReplaceAll s old new =
     (if s = [] then []
      else if old \<noteq> [] \<and> take (length old) s = old
        then new @ ReplaceAll (drop (length old) s) old new
      else hd s # ReplaceAll (tl s) old new)"
  by pat_completeness auto
termination
  by (relation "measure (\<lambda>(s, old, new). length s)") auto

subsection \<open>net/http: headers\<close>

text \<open>
  \<open>http.Header\<close> is a \<open>map[string][]string\<close>, hence a reference: two variables can hold
  the same map, and \<open>Del\<close> and \<open>Set\<close> through one are seen through the other. The maps
  live in a heap (a list, the address being the index), and a header value is an
  address, or \<open>None\<close> for the nil map. An address outside the heap cannot arise in Go; it
  reads as the nil map here. The keys the connection code passes (\<open>Authorization\<close>,
  \<open>Accept\<close>) are in canonical form already, so \<open>CanonicalMIMEHeaderKey\<close> is the identity
  on them and is left out.
\<close>

type_synonym Header = "(string \<times> string list) list"
type_synonym header_heap = "Header list"
type_synonym header_ref = "nat option"

definition deref :: "header_heap \<Rightarrow> header_ref \<Rightarrow> Header option" where
  "deref heap r =
     (case r of
        None \<Rightarrow> None
      | Some a \<Rightarrow> if a < length heap then Some (heap ! a) else None)"

text \<open>\<open>make(http.Header)\<close>: a new, empty map.\<close>

definition make_Header :: "header_heap \<Rightarrow> header_ref \<times> header_heap" where
  "make_Header heap = (Some (length heap), heap @ [[]])"

text \<open>\<open>h.Get(key)\<close>: the first value of the key, or the empty string; also on a nil map.\<close>

definition Header_Get :: "header_heap \<Rightarrow> header_ref \<Rightarrow> string \<Rightarrow> string" where
  "Header_Get heap r key =
     (case deref heap r of
        None \<Rightarrow> []
      | Some h \<Rightarrow> (case map_of h key of Some (x # _) \<Rightarrow> x | _ \<Rightarrow> []))"

text \<open>\<open>h.Del(key)\<close>: deletes the entry in place; does nothing on a nil map.\<close>

definition Header_Del :: "header_heap \<Rightarrow> header_ref \<Rightarrow> string \<Rightarrow> header_heap" where
  "Header_Del heap r key =
     (case r of
        None \<Rightarrow> heap
      | Some a \<Rightarrow> if a < length heap then heap[a := AList.delete key (heap ! a)] else heap)"

text \<open>\<open>h.Set(key, v)\<close>: assigns in place; on a nil map the assignment panics (\<open>None\<close>).\<close>

definition Header_Set ::
  "header_heap \<Rightarrow> header_ref \<Rightarrow> string \<Rightarrow> string \<Rightarrow> header_heap option" where
  "Header_Set heap r key v =
     (case r of
        None \<Rightarrow> None
      | Some a \<Rightarrow>
          if a < length heap then Some (heap[a := AList.update key [v] (heap ! a)]) else None)"

section \<open>The HTTP connection: \<open>NewHTTPConnection\<close>\<close>

subsection \<open>Data\<close>

text \<open>
  A header provider is the Go closure \<open>func() http.Header\<close>: called on the heap of
  header maps, it returns a header and the heap it leaves behind. It may build a new
  map on every call or hand out one and the same map every time.
\<close>

type_synonym provider = "header_heap \<Rightarrow> header_ref \<times> header_heap"

text \<open>
  An HTTP request as the client sees it when \<open>Do\<close> is called: the method, the URL and
  the contents of the header map at that moment. A response: status code, status text
  and the body, given by what \<open>io.ReadAll\<close> returns on it (its bytes, or an error).
  \<open>Doer\<close> is the interface of that name; the client is a collaborator.
\<close>

record 'u request =
  Method :: string
  URL :: "'u URL"
  Header :: "Header option"

record response =
  StatusCode :: int
  Status :: string
  Body :: "error + string"

type_synonym 'u Doer = "'u request \<Rightarrow> error + response"

text \<open>
  The struct \<open>httpConnection\<close>; a nil field is \<open>None\<close>. \<open>queryString\<close> is a
  \<open>func() string\<close>, called once: the field holds the string it returns.
\<close>

record 'u httpConnection =
  client :: "'u Doer option"
  headers :: "provider option"
  queryString :: "string option"

text \<open>An option is a \<open>func(*httpConnection) error\<close>: it fails or changes the struct.\<close>

type_synonym 'u option_fn = "'u httpConnection \<Rightarrow> error + 'u httpConnection"

definition WithHTTPClient :: "'u Doer option \<Rightarrow> 'u option_fn" where
  "WithHTTPClient cl = (\<lambda>c. Inr (c\<lparr>client := cl\<rparr>))"

definition WithHTTPHeaders :: "provider option \<Rightarrow> 'u option_fn" where
  "WithHTTPHeaders hs = (\<lambda>c. Inr (c\<lparr>headers := hs\<rparr>))"

definition WithQueryString :: "string option \<Rightarrow> 'u option_fn" where
  "WithQueryString qs = (\<lambda>c. Inr (c\<lparr>queryString := qs\<rparr>))"

text \<open>
  Modelled from the spec: the struct \<open>negotiateResponse\<close> is declared outside the files at
  hand. \<open>NewHTTPConnection\<close> reads its fields \<open>ConnectionToken\<close> and \<open>ConnectionID\<close>; the
  spec gives it the advertised transports, each a transport name with its transfer
  formats (\<open>None\<close> for a nil slice).
\<close>

record negotiateResponse =
  ConnectionToken :: string
  ConnectionID :: string
  AvailableTransports :: "(string \<times> string list option) list"

text \<open>
  What \<open>NewHTTPConnection\<close> does to the outside, in the order in which it does it: a
  request handed to the client's \<open>Do\<close>; \<open>io.ReadAll\<close> on the body of a response and
  \<open>Close\<close> of that body, the response being numbered by the \<open>Do\<close> call that returned it
  (0 is the negotiate response); and \<open>websocket.Dial\<close>, with the URL text and the
  contents of \<open>opts.HTTPHeader\<close>.
\<close>

datatype 'u event =
    HTTP_Do "'u request"
  | Body_ReadAll nat
  | Body_Close nat
  | WS_Dial string "Header option"

text \<open>
  The state threaded through the function: the heap of header maps, the effects so far,
  and the calls registered with \<open>defer\<close>, which run when the function returns.
\<close>

record 'u world =
  hdrs :: header_heap
  trace :: "'u event list"
  deferred :: "'u event list"

definition emit :: "'u event \<Rightarrow> 'u world \<Rightarrow> 'u world" where
  "emit e w = w\<lparr>trace := trace w @ [e]\<rparr>"

definition defer_call :: "'u event \<Rightarrow> 'u world \<Rightarrow> 'u world" where
  "defer_call e w = w\<lparr>deferred := e # deferred w\<rparr>"

text \<open>
  The collaborators of \<open>NewHTTPConnection\<close> that are not in the files at hand, as
  parameters: the default \<open>http.Client\<close>; \<open>http.NewRequestWithContext\<close> and
  \<open>http.NewRequest\<close>, which parse the URL text of a request or fail; \<open>url.Parse\<close> and
  \<open>URL.String\<close>; \<open>json.Unmarshal\<close> into a \<open>negotiateResponse\<close>; the method
  \<open>getTransferFormats\<close> of the negotiate response (\<open>None\<close> is nil); \<open>websocket.Dial\<close>;
  and the two constructors of connections. The caller's \<open>ctx\<close> only reaches
  \<open>NewRequestWithContext\<close> and \<open>Dial\<close>, where its cancellation shows as their error.
\<close>

record ('u, 'ws, 'conn) env =
  defaultClient :: "'u Doer"
  http_NewRequest :: "string \<Rightarrow> string \<Rightarrow> error + 'u URL"
  url_Parse :: "string \<Rightarrow> error + 'u URL"
  url_String :: "'u URL \<Rightarrow> string"
  json_Unmarshal :: "string \<Rightarrow> error + negotiateResponse"
  getTransferFormats :: "negotiateResponse \<Rightarrow> string \<Rightarrow> string list option"
  websocket_Dial :: "string \<Rightarrow> Header option \<Rightarrow> error + 'ws"
  newWebSocketConnection :: "string \<Rightarrow> 'ws \<Rightarrow> 'conn"
  newClientSSEConnection :: "string \<Rightarrow> string \<Rightarrow> error + string \<Rightarrow> error + 'conn"

text \<open>
  Modelled from the spec: the method \<open>getTransferFormats\<close> is defined outside the files at
  hand. By the spec a transport is chosen by the transfer formats the server advertised
  for it, so the method returns the transfer formats of the advertised transport of the
  given name, and nil when there is none. The theorems below hold for every
  \<open>getTransferFormats\<close>; this one serves in the concrete runs.
\<close>

definition spec_getTransferFormats :: "negotiateResponse \<Rightarrow> string \<Rightarrow> string list option" where
  "spec_getTransferFormats nr transportType =
     (case find (\<lambda>t. fst t = transportType) (AvailableTransports nr) of
        None \<Rightarrow> None
      | Some t \<Rightarrow> snd t)"

subsection \<open>The function, in the order of the source\<close>

text \<open>The loop over the options: a nil option is skipped, the first error is returned.\<close>

fun applyOptions ::
  "'u option_fn option list \<Rightarrow> 'u httpConnection \<Rightarrow> error + 'u httpConnection" where
  "applyOptions [] httpConn = Inr httpConn"
| "applyOptions (None # options) httpConn = applyOptions options httpConn"
| "applyOptions (Some option # options) httpConn =
     (case option httpConn of
        Inl err \<Rightarrow> Inl err
      | Inr httpConn' \<Rightarrow> applyOptions options httpConn')"

text \<open>The options applied to an empty \<open>httpConnection\<close>, and the default client set.\<close>

definition configure ::
  "('u, 'ws, 'conn) env \<Rightarrow> 'u option_fn option list \<Rightarrow> error + 'u httpConnection" where
  "configure env options =
     (case applyOptions options \<lparr> client = None, headers = None, queryString = None \<rparr> of
        Inl err \<Rightarrow> Inl err
      | Inr httpConn \<Rightarrow>
          Inr (if client httpConn = None then httpConn\<lparr>client := Some (defaultClient env)\<rparr>
               else httpConn))"

text \<open>\<open>httpConn.client.Do(req)\<close>; calling it on a nil client would panic.\<close>

definition call_Do :: "'u httpConnection \<Rightarrow> 'u request \<Rightarrow> error + response" where
  "call_Do httpConn req =
     (case client httpConn of
        None \<Rightarrow> Inl (Panic ''invalid memory address or nil pointer dereference'')
      | Some d \<Rightarrow> d req)"

text \<open>
  The negotiate request: \<open>POST address/negotiate\<close>, with a new header map; then the
  query string and the header of the providers, when they are set.
\<close>

definition negotiateRequest ::
  "('u, 'ws, 'conn) env \<Rightarrow> 'u httpConnection \<Rightarrow> string \<Rightarrow> header_heap
     \<Rightarrow> error + 'u request \<times> header_heap" where
  "negotiateRequest env httpConn address heap =
     (case http_NewRequest env ''POST'' (address @ ''/negotiate'') of
        Inl err \<Rightarrow> Inl err
      | Inr u \<Rightarrow>
          let (hdr0, heap0) = make_Header heap;
              u1 = (case queryString httpConn of Some qs \<Rightarrow> u\<lparr>RawQuery := qs\<rparr> | None \<Rightarrow> u);
              (hdr, heap1) =
                (case headers httpConn of
                   Some provider \<Rightarrow> provider heap0
                 | None \<Rightarrow> (hdr0, heap0))
          in Inr (\<lparr> Method = ''POST'', URL = u1, Header = deref heap1 hdr \<rparr>, heap1))"

text \<open>
  The first half of \<open>NewHTTPConnection\<close>, up to the decoded negotiate response: the
  request is sent; once a response is there, closing its body is deferred; a status
  other than 200 is an error; otherwise the body is read and decoded.
\<close>

definition negotiate ::
  "('u, 'ws, 'conn) env \<Rightarrow> string \<Rightarrow> 'u option_fn option list \<Rightarrow> 'u world
     \<Rightarrow> (error + 'u httpConnection \<times> negotiateResponse) \<times> 'u world" where
  "negotiate env address options w =
     (case configure env options of
        Inl err \<Rightarrow> (Inl err, w)
      | Inr httpConn \<Rightarrow>
          case negotiateRequest env httpConn address (hdrs w) of
            Inl err \<Rightarrow> (Inl err, w)
          | Inr (req, heap1) \<Rightarrow>
              let w1 = emit (HTTP_Do req) (w\<lparr>hdrs := heap1\<rparr>) in
              case call_Do httpConn req of
                Inl err \<Rightarrow> (Inl err, w1)
              | Inr resp \<Rightarrow>
                  let w2 = defer_call (Body_Close 0) w1 in
                  if StatusCode resp \<noteq> 200
                  then (Inl (Errorf (Method req @ '' '' @ url_String env (URL req) @ '' -> ''
                               @ Status resp)), w2)
                  else
                    let w3 = emit (Body_ReadAll 0) w2 in
                    case Body resp of
                      Inl err \<Rightarrow> (Inl err, w3)
                    | Inr body \<Rightarrow>
                        (case json_Unmarshal env body of
                           Inl err \<Rightarrow> (Inl err, w3)
                         | Inr nr \<Rightarrow> (Inr (httpConn, nr), w3)))"

text \<open>
  The block \<open>if httpConn.headers != nil\<close> of the WebSocket case. The provider is called
  a first time; the bearer token is cut out of the \<open>Authorization\<close> value of that header
  and the entry is deleted from that header; \<open>opts.HTTPHeader\<close> is then set to what a
  second call of the provider returns; and \<open>access_token\<close> is set in the query.
\<close>

definition bearerOptions ::
  "provider \<Rightarrow> 'u URL \<Rightarrow> header_heap \<Rightarrow> header_ref \<times> 'u URL \<times> header_heap" where
  "bearerOptions provider wsURL heap =
     (let (headers, heap1) = provider heap;
          (accessToken, heap2) =
            (if Header_Get heap1 headers ''Authorization'' \<noteq> []
             then (ReplaceAll (Header_Get heap1 headers ''Authorization'') ''Bearer '' [],
                   Header_Del heap1 headers ''Authorization'')
             else ([], heap1));
          (hTTPHeader, heap3) = provider heap2;
          q = Values_Set (URL_Query wsURL) ''access_token'' accessToken
      in (hTTPHeader, wsURL\<lparr>RawQuery := Encode q\<rparr>, heap3))"

text \<open>The case \<open>WebSockets\<close> of the switch.\<close>

definition dialWebSocket ::
  "('u, 'ws, 'conn) env \<Rightarrow> 'u httpConnection \<Rightarrow> negotiateResponse \<Rightarrow> 'u URL \<Rightarrow> 'u world
     \<Rightarrow> (error + 'conn option) \<times> 'u world" where
  "dialWebSocket env httpConn nr reqURL w =
     (let wsURL0 = reqURL\<lparr>Scheme := (if Scheme reqURL = ''https'' then ''wss'' else ''ws'')\<rparr>;
          (opts, wsURL, heap) =
            (case headers httpConn of
               None \<Rightarrow> (None, wsURL0, hdrs w)
             | Some provider \<Rightarrow> bearerOptions provider wsURL0 (hdrs w));
          w1 = emit (WS_Dial (url_String env wsURL) (deref heap opts)) (w\<lparr>hdrs := heap\<rparr>)
      in
      case websocket_Dial env (url_String env wsURL) (deref heap opts) of
        Inl err \<Rightarrow> (Inl err, w1)
      | Inr ws \<Rightarrow> (Inr (Some (newWebSocketConnection env (ConnectionID nr) ws)), w1))"

text \<open>The case \<open>ServerSentEvents\<close> of the switch.\<close>

definition connectSSE ::
  "('u, 'ws, 'conn) env \<Rightarrow> string \<Rightarrow> 'u httpConnection \<Rightarrow> negotiateResponse \<Rightarrow> 'u URL
     \<Rightarrow> 'u world \<Rightarrow> (error + 'conn option) \<times> 'u world" where
  "connectSSE env address httpConn nr reqURL w =
     (case http_NewRequest env ''GET'' (url_String env reqURL) of
        Inl err \<Rightarrow> (Inl err, w)
      | Inr u \<Rightarrow>
          let (hdr0, heap0) = make_Header (hdrs w);
              (hdr, heap1) =
                (case headers httpConn of
                   Some provider \<Rightarrow> provider heap0
                 | None \<Rightarrow> (hdr0, heap0))
          in
          case Header_Set heap1 hdr ''Accept'' ''text/event-stream'' of
            None \<Rightarrow> (Inl (Panic ''assignment to entry in nil map''), w\<lparr>hdrs := heap1\<rparr>)
          | Some heap2 \<Rightarrow>
              let req = \<lparr> Method = ''GET'', URL = u, Header = deref heap2 hdr \<rparr>;
                  w1 = emit (HTTP_Do req) (w\<lparr>hdrs := heap2\<rparr>)
              in
              case call_Do httpConn req of
                Inl err \<Rightarrow> (Inl err, w1)
              | Inr resp \<Rightarrow>
                  (case newClientSSEConnection env address (ConnectionID nr) (Body resp) of
                     Inl err \<Rightarrow> (Inl err, w1)
                   | Inr conn \<Rightarrow> (Inr (Some conn), w1)))"

text \<open>
  The second half of \<open>NewHTTPConnection\<close>, from \<open>url.Parse(address)\<close> on: the query
  parameter \<open>id\<close> is set, and the switch picks the transport. When no case applies,
  \<open>conn\<close> is still nil and is returned with a nil error.
\<close>

definition establish ::
  "('u, 'ws, 'conn) env \<Rightarrow> string \<Rightarrow> 'u httpConnection \<Rightarrow> negotiateResponse \<Rightarrow> 'u world
     \<Rightarrow> (error + 'conn option) \<times> 'u world" where
  "establish env address httpConn nr w =
     (case url_Parse env address of
        Inl err \<Rightarrow> (Inl err, w)
      | Inr reqURL0 \<Rightarrow>
          let q0 = URL_Query reqURL0;
              q = (if ConnectionToken nr \<noteq> [] then Values_Set q0 ''id'' (ConnectionToken nr)
                   else Values_Set q0 ''id'' (ConnectionID nr));
              reqURL = reqURL0\<lparr>RawQuery := Encode q\<rparr>
          in
          if getTransferFormats env nr ''WebSockets'' \<noteq> None
            then dialWebSocket env httpConn nr reqURL w
          else if getTransferFormats env nr ''ServerSentEvents'' \<noteq> None
            then connectSSE env address httpConn nr reqURL w
          else (Inr None, w))"

text \<open>
  \<open>NewHTTPConnection\<close>: the two halves in sequence, and the deferred calls run at the
  return. The result is the pair the function returns (\<open>Inl\<close> an error, \<open>Inr None\<close>
  a nil connection with a nil error), the heap of header maps, and the effects in order.
\<close>

definition NewHTTPConnection ::
  "('u, 'ws, 'conn) env \<Rightarrow> string \<Rightarrow> 'u option_fn option list \<Rightarrow> header_heap
     \<Rightarrow> (error + 'conn option) \<times> header_heap \<times> 'u event list" where
  "NewHTTPConnection env address options heap =
     (let (r, w) =
            (case negotiate env address options \<lparr> hdrs = heap, trace = [], deferred = [] \<rparr> of
               (Inl err, w) \<Rightarrow> (Inl err, w)
             | (Inr (httpConn, nr), w) \<Rightarrow> establish env address httpConn nr w)
      in (r, hdrs w, trace w @ deferred w))"

subsection \<open>A server and a client for concrete runs\<close>

text \<open>
  A server that answers the negotiate \<open>POST\<close> with the given status and the body \<open>{}\<close>,
  and any other request with an event stream.
\<close>

definition exampleServer :: "int \<Rightarrow> string \<Rightarrow> string Doer" where
  "exampleServer code status =
     (\<lambda>req. if Method req = ''POST''
        then Inr \<lparr> StatusCode = code, Status = status, Body = Inr ''{}'' \<rparr>
        else Inr \<lparr> StatusCode = 200, Status = ''200 OK'', Body = Inr ''data: x'' \<rparr>)"

text \<open>
  A URL parser for texts of the form \<open>scheme:rest?query\<close>, with its printer; an
  environment in which the body \<open>{}\<close> decodes to the given negotiate response, dialling
  succeeds and a connection is the pair of what it was made from and its id.
\<close>

definition exampleURL :: "string \<Rightarrow> string URL" where
  "exampleURL s =
     \<lparr> Scheme = fst (Cut (fst (Cut s CHR ''?'')) CHR '':''),
       RawQuery = fst (snd (Cut s CHR ''?'')),
       Other = fst (snd (Cut (fst (Cut s CHR ''?'')) CHR '':'')) \<rparr>"

definition exampleString :: "string URL \<Rightarrow> string" where
  "exampleString u =
     Scheme u @ '':'' @ Other u @ (if RawQuery u \<noteq> [] then ''?'' @ RawQuery u else [])"

definition exampleEnv ::
  "int \<Rightarrow> string \<Rightarrow> negotiateResponse \<Rightarrow> (string, string, string \<times> string) env" where
  "exampleEnv code status nr =
     \<lparr> defaultClient = exampleServer code status,
       http_NewRequest = (\<lambda>m s. Inr (exampleURL s)),
       url_Parse = (\<lambda>s. Inr (exampleURL s)),
       url_String = exampleString,
       json_Unmarshal = (\<lambda>s. if s = ''{}'' then Inr nr else Inl (Failure ''json'')),
       getTransferFormats = spec_getTransferFormats,
       websocket_Dial = (\<lambda>u h. Inr u),
       newWebSocketConnection = (\<lambda>i ws. (ws, i)),
       newClientSSEConnection = (\<lambda>a i b. Inr (a, i)) \<rparr>"

definition exampleResponse :: "string list \<Rightarrow> negotiateResponse" where
  "exampleResponse ts =
     \<lparr> ConnectionToken = ''tok'', ConnectionID = ''cid'',
       AvailableTransports = map (\<lambda>t. (t, Some [''Text''])) ts \<rparr>"

text \<open>A negotiate response without a connection token.\<close>

definition idOnlyResponse :: "string list \<Rightarrow> negotiateResponse" where
  "idOnlyResponse ts =
     \<lparr> ConnectionToken = [], ConnectionID = ''cid'',
       AvailableTransports = map (\<lambda>t. (t, Some [''Text''])) ts \<rparr>"

text \<open>
  Two header providers, as a caller would write them: each call builds a new map, once
  with a bearer token and once without an \<open>Authorization\<close> entry.
\<close>

definition freshBearer :: provider where
  "freshBearer heap = (Some (length heap), heap @ [[(''Authorization'', [''Bearer XYZ''])]])"

definition freshPlain :: provider where
  "freshPlain heap = (Some (length heap), heap @ [[(''X-Client'', [''go''])]])"

section \<open>Properties of the hub connection\<close>

lemma writeMessage_frame:
  "Connected (snd (writeMessage c m sel)) = Connected c"
  "ctxt (snd (writeMessage c m sel)) = ctxt c"
  "items (snd (writeMessage c m sel)) = items c"
  "Protocol (snd (writeMessage c m sel)) = Protocol c"
  by (simp_all add: writeMessage_def Let_def split: prod.splits)

lemma writeMessage_Connection:
  "Connection (snd (writeMessage c m sel)) = snd (WriteMessage (Protocol c) m (Connection c))"
  by (simp add: writeMessage_def Let_def split: prod.splits)

lemma writeMessage_result:
  "fst (writeMessage c m sel) =
     (if is_done (ctxt c) \<and> sel = DoneCase then Some Canceled
      else fst (WriteMessage (Protocol c) m (Connection c)))"
  by (simp add: writeMessage_def Let_def ctx_Err_def split: prod.splits)

lemma Close_frame:
  "ctxt (snd (Close c e sel)) = ctxt c"
  "items (snd (Close c e sel)) = items c"
  "Connected (snd (Close c e sel)) = 0"
  using writeMessage_frame [of "c\<lparr>Connected := 0\<rparr>"]
  by (simp_all add: Close_def Let_def split: prod.splits)
    (metis snd_conv select_convs surjective update_convs)+

lemma sender_frame:
  "ctxt (snd (SendInvocation c t as sel)) = ctxt c"
  "items (snd (SendInvocation c t as sel)) = items c"
  "ctxt (snd (StreamItem c i x sel)) = ctxt c"
  "items (snd (StreamItem c i x sel)) = items c"
  "ctxt (snd (Completion c i r e sel)) = ctxt c"
  "items (snd (Completion c i r e sel)) = items c"
  "ctxt (snd (Ping c sel)) = ctxt c"
  "items (snd (Ping c sel)) = items c"
  by (simp_all add: SendInvocation_def StreamItem_def Completion_def Ping_def Let_def
        writeMessage_frame split_beta)

lemma Start_frame:
  "ctxt (Start c) = ctxt c" "items (Start c) = items c"
  by (simp_all add: Start_def)

lemma Abort_frame:
  "items (Abort c) = items c" "is_done (ctxt (Abort c))" "Connected (Abort c) = 0"
  by (simp_all add: Abort_def cancel_def Let_def)

lemma step_ctxt: "x \<noteq> CallAbort \<Longrightarrow> ctxt (step c x) = ctxt c"
  by (cases x) (simp_all add: sender_frame Start_frame Close_frame)

lemma step_items: "items (step c x) = items c"
  by (cases x) (simp_all add: sender_frame Start_frame Close_frame Abort_frame)

lemma run_ctxt: "CallAbort \<notin> set xs \<Longrightarrow> ctxt (run c xs) = ctxt c"
  by (induction xs arbitrary: c) (auto simp: step_ctxt)

lemma run_items: "items (run c xs) = items c"
  by (induction xs arbitrary: c) (simp_all add: step_items)

text \<open>
  Claim C5, amended. For every \<open>errorText\<close>, \<open>Close(errorText)\<close> clears the \<open>Connected\<close>
  flag, so that \<open>IsConnected()\<close> is false afterwards; the message it builds has
  \<open>Type = 7\<close>, \<open>Error = errorText\<close> and \<open>AllowReconnect = true\<close>; that message is what
  the protocol writes onto the connection; and \<open>Close\<close> returns the message together with
  the protocol's write error, except when the context is cancelled and the \<open>select\<close> of
  the write path takes the \<open>Done\<close> case: then it returns the context's cancellation
  error, and the result of the write is dropped.
\<close>

theorem Close_clears_builds_writes_returns:
  "IsConnected (snd (Close c errorText sel)) = False
   \<and> fst (fst (Close c errorText sel))
       = \<lparr> Type = 7, Error = errorText, AllowReconnect = True \<rparr>
   \<and> Connection (snd (Close c errorText sel))
       = snd (WriteMessage (Protocol c)
               (CloseMessage \<lparr> Type = 7, Error = errorText, AllowReconnect = True \<rparr>)
               (Connection c))
   \<and> snd (fst (Close c errorText sel))
       = (if is_done (ctxt c) \<and> sel = DoneCase then Some Canceled
          else fst (WriteMessage (Protocol c)
                 (CloseMessage \<lparr> Type = 7, Error = errorText, AllowReconnect = True \<rparr>)
                 (Connection c)))"
  by (simp add: Close_def IsConnected_def Let_def split_beta writeMessage_frame
        writeMessage_Connection writeMessage_result)

theorem Close_clears_builds_writes_returns_witness:
  "\<not> IsConnected (snd (Close (Start (fst (newHubConnection [] (logProtocol 0) 1 ([] :: nat items_heap)))) ''boom'' ResultCase))
   \<and> fst (Close (Start (fst (newHubConnection [] (logProtocol 0) 1 ([] :: nat items_heap)))) ''boom'' ResultCase)
       = (\<lparr> Type = 7, Error = ''boom'', AllowReconnect = True \<rparr>, Some (Failure ''write''))
   \<and> fst (Close (Abort (Start (fst (newHubConnection [] (logProtocol 5) 1 ([] :: nat items_heap))))) ''boom'' DoneCase)
       = (\<lparr> Type = 7, Error = ''boom'', AllowReconnect = True \<rparr>, Some Canceled)
   \<and> Connection (snd (Close (Abort (Start (fst (newHubConnection [] (logProtocol 5) 1 ([] :: nat items_heap))))) ''boom'' DoneCase))
       = [CloseMessage \<lparr> Type = 7, Error = ''boom'', AllowReconnect = True \<rparr>]"
  using Close_clears_builds_writes_returns
    [of "Start (fst (newHubConnection [] (logProtocol 0) 1 ([] :: nat items_heap)))"
        "''boom''" ResultCase]
    Close_clears_builds_writes_returns
    [of "Abort (Start (fst (newHubConnection [] (logProtocol 5) 1 ([] :: nat items_heap))))"
        "''boom''" DoneCase]
  by (simp add: Let_def Close_def IsConnected_def writeMessage_def newHubConnection_def Start_def
        Abort_def cancel_def WithCancel_TODO_def logProtocol_def ctx_Err_def)

text \<open>
  Claim C5 as stated fails: after \<open>Abort\<close>, a \<open>Close\<close> whose \<open>select\<close> takes the \<open>Done\<close>
  case returns \<open>context.Canceled\<close>, both when the protocol's write fails (the write error
  is not what is returned) and when it succeeds (an error is returned though the write
  had none).
\<close>

theorem Close_after_Abort_drops_write_error:
  "snd (fst (Close (Abort (Start (fst (newHubConnection [] (logProtocol 0) 1 ([] :: nat items_heap)))))
          ''boom'' DoneCase)) = Some Canceled
   \<and> fst (WriteMessage
         (Protocol (Abort (Start (fst (newHubConnection [] (logProtocol 0) 1 ([] :: nat items_heap))))))
         (CloseMessage \<lparr> Type = 7, Error = ''boom'', AllowReconnect = True \<rparr>)
         (Connection (Abort (Start (fst (newHubConnection [] (logProtocol 0) 1 ([] :: nat items_heap)))))))
       = Some (Failure ''write'')
   \<and> snd (fst (Close (Abort (Start (fst (newHubConnection [] (logProtocol 5) 1 ([] :: nat items_heap)))))
          ''boom'' DoneCase)) = Some Canceled
   \<and> fst (WriteMessage
         (Protocol (Abort (Start (fst (newHubConnection [] (logProtocol 5) 1 ([] :: nat items_heap))))))
         (CloseMessage \<lparr> Type = 7, Error = ''boom'', AllowReconnect = True \<rparr>)
         (Connection (Abort (Start (fst (newHubConnection [] (logProtocol 5) 1 ([] :: nat items_heap)))))))
       = None"
  by (simp add: Let_def Close_def writeMessage_def newHubConnection_def Start_def
        Abort_def cancel_def WithCancel_TODO_def logProtocol_def ctx_Err_def)

text \<open>
  Claim C6. \<open>Close\<close> never cancels the hub connection's context: the context after
  \<open>Close\<close> is the context before it, whereas \<open>Abort\<close> leaves it done; and on a connection made
  by \<open>newHubConnection\<close>, after any sequence of calls to \<open>Start\<close>, \<open>Close\<close> and the typed
  senders in which \<open>Abort\<close> does not occur, the context is not done.
\<close>

theorem Close_keeps_context_only_Abort_cancels:
  "Context_of (snd (Close c errorText sel)) = Context_of c
   \<and> is_done (Context_of (Abort c))
   \<and> (CallAbort \<notin> set calls \<longrightarrow>
        \<not> is_done (Context_of (run (fst (newHubConnection conn proto n heap)) calls)))"
  by (simp add: Context_of_def Close_frame Abort_frame run_ctxt)
    (simp add: newHubConnection_def WithCancel_TODO_def)

theorem Close_keeps_context_only_Abort_cancels_witness:
  "CallAbort \<notin> set [CallStart, CallClose ''boom'' DoneCase, CallPing ResultCase :: nat call]
   \<and> \<not> is_done (Context_of (run (fst (newHubConnection [] (logProtocol 5) 1 ([] :: nat items_heap)))
         [CallStart, CallClose ''boom'' DoneCase, CallPing ResultCase]))
   \<and> is_done (Context_of (run (fst (newHubConnection [] (logProtocol 5) 1 ([] :: nat items_heap)))
         [CallStart, CallAbort]))"
  using Close_keeps_context_only_Abort_cancels
    [of _ _ _ "[CallStart, CallClose ''boom'' DoneCase, CallPing ResultCase :: nat call]"
        "[]" "logProtocol 5" 1 "[]"]
  by (simp add: Let_def Close_def writeMessage_def newHubConnection_def Start_def Abort_def
        WithCancel_TODO_def logProtocol_def ctx_Err_def cancel_def Ping_def Context_of_def)

text \<open>
  Claim C8. The \<open>Connected\<close> flag is not latched: after \<open>Close\<close> or \<open>Abort\<close> has cleared it,
  a following \<open>Start\<close> finds it 0, swaps it to 1, and \<open>IsConnected()\<close> is true again.
\<close>

theorem Start_after_Close_or_Abort_reconnects:
  "\<not> IsConnected (Abort c) \<and> IsConnected (Start (Abort c))
   \<and> \<not> IsConnected (snd (Close c errorText sel))
   \<and> IsConnected (Start (snd (Close c errorText sel)))"
  by (simp add: IsConnected_def Start_def Abort_frame Close_frame)

theorem Start_after_Close_or_Abort_reconnects_witness:
  "IsConnected (run (fst (newHubConnection [] (logProtocol 5) 1 ([] :: nat items_heap)))
      [CallStart, CallAbort, CallStart])
   \<and> IsConnected (run (fst (newHubConnection [] (logProtocol 5) 1 ([] :: nat items_heap)))
      [CallStart, CallClose ''bye'' ResultCase, CallStart])"
  using Start_after_Close_or_Abort_reconnects
    [of "Start (fst (newHubConnection [] (logProtocol 5) 1 ([] :: nat items_heap)))"
        "''bye''" ResultCase]
  by (simp add: Let_def Close_def writeMessage_def newHubConnection_def Start_def Abort_def
        WithCancel_TODO_def logProtocol_def ctx_Err_def cancel_def IsConnected_def)

text \<open>
  Claim C10. \<open>Items()\<close> returns the same map on every call: \<open>newHubConnection\<close> allocates
  one fresh, empty map and leaves the maps that exist untouched; no sequence of calls on
  the connection changes the reference \<open>Items()\<close> returns; and an entry assigned through
  the reference returned by one call is read through the reference returned by any later
  call. (The model is sequential, so that no lock is taken has no counterpart in it.)
\<close>

theorem Items_same_map_every_call:
  "Items (run c calls) = Items c
   \<and> Items (fst (newHubConnection conn proto n heap)) = length heap
   \<and> length (snd (newHubConnection conn proto n heap)) = Suc (length heap)
   \<and> map_index (snd (newHubConnection conn proto n heap))
        (Items (fst (newHubConnection conn proto n heap))) k = None
   \<and> (\<forall>r<length heap. snd (newHubConnection conn proto n heap) ! r = heap ! r)
   \<and> (Items c < length h \<longrightarrow>
        map_index (map_assign h (Items c) k v) (Items (run c calls)) k = Some v)"
  by (simp add: Items_def run_items newHubConnection_def map_index_def map_assign_def
        nth_append)

theorem Items_same_map_every_call_witness:
  "Items (fst (newHubConnection [] (logProtocol 5) 1 [Map.empty :: string \<rightharpoonup> nat])) = 1
   \<and> map_index
        (map_assign (snd (newHubConnection [] (logProtocol 5) 1 [Map.empty :: string \<rightharpoonup> nat]))
           (Items (fst (newHubConnection [] (logProtocol 5) 1 [Map.empty :: string \<rightharpoonup> nat])))
           ''user'' 7)
        (Items (run (fst (newHubConnection [] (logProtocol 5) 1 [Map.empty :: string \<rightharpoonup> nat]))
           [CallStart, CallPing ResultCase, CallAbort]))
        ''user'' = Some 7"
  using Items_same_map_every_call
    [of "fst (newHubConnection [] (logProtocol 5) 1 [Map.empty :: string \<rightharpoonup> nat])"
        "[CallStart, CallPing ResultCase, CallAbort]" "[]" "logProtocol 5" 1
        "[Map.empty :: string \<rightharpoonup> nat]" "''user''"
        "snd (newHubConnection [] (logProtocol 5) 1 [Map.empty :: string \<rightharpoonup> nat])" 7]
  by (simp add: Let_def writeMessage_def newHubConnection_def Start_def Abort_def
        WithCancel_TODO_def logProtocol_def ctx_Err_def cancel_def Ping_def Items_def
        map_index_def map_assign_def)

section \<open>Properties of the query functions\<close>

declare parseQuery.simps [simp del] ReplaceAll.simps [simp del]

text \<open>
  Escaping is undone by unescaping, and an escaped text contains none of the
  separators of a query.
\<close>

lemma upperhex_nth:
  "n < 16 \<Longrightarrow> ishex (upperhex ! n) \<and> unhex (upperhex ! n) = n
      \<and> upperhex ! n \<notin> {CHR ''&'', CHR '';'', CHR ''=''}"
proof -
  assume "n < 16"
  then have "n = 0 \<or> n = 1 \<or> n = 2 \<or> n = 3 \<or> n = 4 \<or> n = 5 \<or> n = 6 \<or> n = 7
      \<or> n = 8 \<or> n = 9 \<or> n = 10 \<or> n = 11 \<or> n = 12 \<or> n = 13 \<or> n = 14 \<or> n = 15"
    by arith
  then show ?thesis
    by (elim disjE; simp add: upperhex_def ishex_def unhex_def less_eq_char_def)
qed

lemma byte_split: "char_of (of_char c div 16 * 16 + of_char c mod (16::nat)) = c"
  by simp

lemma of_char_div16: "(of_char (c::char) :: nat) div 16 < 16"
proof -
  have "(of_char c :: nat) < 256" by (rule nat_of_char_less_256)
  then show ?thesis by arith
qed

lemma unescaped_plain:
  "\<not> shouldEscape c \<Longrightarrow> c \<notin> {CHR ''%'', CHR ''+'', CHR ''&'', CHR '';'', CHR ''='', CHR '' ''}"
  by (auto simp: shouldEscape_def less_eq_char_def)

lemma QueryEscape_chars:
  "set (QueryEscape s) \<inter> {CHR ''&'', CHR '';'', CHR ''=''} = {}"
proof (induction s)
  case Nil show ?case by simp
next
  case (Cons c s)
  show ?case
    using Cons unescaped_plain [of c] upperhex_nth [of "of_char c div 16"]
      upperhex_nth [of "of_char c mod 16"] of_char_div16 [of c]
    by auto
qed

lemma QueryUnescape_QueryEscape: "QueryUnescape (QueryEscape s) = Inr s"
proof -
  have "bad_escape (QueryEscape s) = None \<and> unescape_bytes (QueryEscape s) = s"
  proof (induction s)
    case Nil show ?case by simp
  next
    case (Cons c s)
    show ?case
      using Cons unescaped_plain [of c] upperhex_nth [of "of_char c div 16"]
        upperhex_nth [of "of_char c mod 16"] of_char_div16 [of c]
      by (auto simp: byte_split)
  qed
  then show ?thesis by (simp add: QueryUnescape_def)
qed

text \<open>The parser reads back, pair by pair, what \<open>Encode\<close> wrote.\<close>

lemma Cut_no_sep: "sep \<notin> set s \<Longrightarrow> Cut s sep = (s, [], False)"
  by (simp add: Cut_def)

lemma Cut_at_sep: "sep \<notin> set p \<Longrightarrow> Cut (p @ sep # r) sep = (p, r, True)"
  by (induction p) (auto simp: Cut_def)

lemma enc_pair_chars: "CHR ''&'' \<notin> set (enc_pair kv)" "CHR '';'' \<notin> set (enc_pair kv)"
  "enc_pair kv \<noteq> []"
  using QueryEscape_chars [of "fst kv"] QueryEscape_chars [of "snd kv"]
  by (auto simp: enc_pair_def)

lemma parse_pair_enc: "parse_pair m err (enc_pair (k, x)) = (Values_append m k x, err)"
proof -
  have "CHR ''='' \<notin> set (QueryEscape k)"
    using QueryEscape_chars [of k] by auto
  then have "Cut (enc_pair (k, x)) CHR ''='' = (QueryEscape k, QueryEscape x, True)"
    by (simp add: enc_pair_def Cut_at_sep)
  then show ?thesis
    using enc_pair_chars [of "(k, x)"]
    by (simp add: parse_pair_def QueryUnescape_QueryEscape)
qed

lemma parseQuery_Nil: "parseQuery m [] err = (m, err)"
  by (subst parseQuery.simps) simp

lemma parseQuery_last:
  "CHR ''&'' \<notin> set p \<Longrightarrow> p \<noteq> [] \<Longrightarrow> parseQuery m p err = parse_pair m err p"
  by (subst parseQuery.simps) (simp add: Cut_no_sep parseQuery_Nil split_beta)

lemma parseQuery_amp:
  "CHR ''&'' \<notin> set p \<Longrightarrow>
     parseQuery m (p @ CHR ''&'' # r) err
       = parseQuery (fst (parse_pair m err p)) r (snd (parse_pair m err p))"
  by (subst parseQuery.simps) (simp add: Cut_at_sep split_beta)

lemma parseQuery_pairs:
  "parseQuery m (enc_pair kv @ concat (map (\<lambda>q. CHR ''&'' # enc_pair q) kvs)) err
     = (foldl (\<lambda>m (k, x). Values_append m k x) m (kv # kvs), err)"
proof (induction kvs arbitrary: m kv)
  case Nil
  show ?case
    by (cases kv) (simp add: parseQuery_last enc_pair_chars parse_pair_enc)
next
  case (Cons q kvs)
  show ?case
    using Cons [of _ q]
    by (cases kv) (simp add: parseQuery_amp enc_pair_chars parse_pair_enc)
qed

lemma foldl_amp_join:
  "\<forall>p \<in> set ps. p \<noteq> [] \<Longrightarrow> buf \<noteq> [] \<Longrightarrow>
     foldl amp_join buf ps = buf @ concat (map (\<lambda>p. CHR ''&'' # p) ps)"
  by (induction ps arbitrary: buf) (simp_all add: amp_join_def)

lemma encode_key_pairs:
  "encode_key v buf k = foldl amp_join buf (map enc_pair (map (Pair k) (Values_index v k)))"
proof -
  have "encode_value (QueryEscape k) = (\<lambda>buf x. amp_join buf (enc_pair (k, x)))"
    by (simp add: fun_eq_iff encode_value_def amp_join_def enc_pair_def)
  then show ?thesis
    by (simp add: encode_key_def foldl_map)
qed

lemma foldl_encode_key:
  "foldl (encode_key v) buf ks = foldl amp_join buf (map enc_pair (pairs_of v ks))"
  by (induction ks arbitrary: buf) (simp_all add: pairs_of_def encode_key_pairs)

lemma Encode_pairs:
  "Encode v = foldl amp_join [] (map enc_pair (pairs_of v (sort (Values_keys v))))"
  by (cases "v = []") (simp_all add: Encode_def foldl_encode_key Values_keys_def pairs_of_def)

lemma Values_index_append:
  "Values_index (Values_append m k' x) k
     = (if k = k' then Values_index m k @ [x] else Values_index m k)"
  by (simp add: Values_index_def Values_append_def update_conv')

lemma Values_index_foldl_append:
  "Values_index (foldl (\<lambda>m (k, x). Values_append m k x) m kvs) k
     = Values_index m k @ map snd (filter (\<lambda>kv. fst kv = k) kvs)"
  by (induction kvs arbitrary: m) (auto simp: Values_index_append)

lemma pairs_of_filter:
  "distinct ks \<Longrightarrow>
     map snd (filter (\<lambda>kv. fst kv = k) (pairs_of v ks))
       = (if k \<in> set ks then Values_index v k else [])"
proof (induction ks)
  case Nil show ?case by (simp add: pairs_of_def)
next
  case (Cons a ks)
  have "filter (\<lambda>kv. fst kv = k) (map (Pair a) xs) = (if a = k then map (Pair a) xs else [])"
    for xs :: "string list"
    by (induction xs) auto
  with Cons show ?case
    by (auto simp: pairs_of_def comp_def)
qed

lemma Values_index_not_key: "k \<notin> set (Values_keys v) \<Longrightarrow> Values_index v k = []"
  by (simp add: Values_keys_def Values_index_def map_of_eq_None_iff [THEN iffD2])

text \<open>
  Parsing an encoded map gives every key the values it had: \<open>Encode\<close> followed by
  \<open>Query()\<close> loses nothing but the keys without values.
\<close>

lemma Query_Encode:
  "Values_index (fst (ParseQuery (Encode v))) k = Values_index v k"
proof (cases "pairs_of v (sort (Values_keys v))")
  case Nil
  then have "map snd (filter (\<lambda>kv. fst kv = k) (pairs_of v (sort (Values_keys v)))) = []"
    by simp
  then have "Values_index v k = []"
    using Values_index_not_key [of k v]
    by (cases "k \<in> set (Values_keys v)") (simp_all add: pairs_of_filter Values_keys_def)
  with Nil show ?thesis
    by (simp add: Encode_pairs ParseQuery_def parseQuery_Nil Values_index_def)
next
  case (Cons kv kvs)
  then have "Encode v = enc_pair kv @ concat (map (\<lambda>q. CHR ''&'' # enc_pair q) kvs)"
    using foldl_amp_join [of "map enc_pair kvs" "enc_pair kv"] enc_pair_chars(3)
    by (simp add: Encode_pairs amp_join_def comp_def)
  then have "Values_index (fst (ParseQuery (Encode v))) k
      = map snd (filter (\<lambda>kv. fst kv = k) (pairs_of v (sort (Values_keys v))))"
    by (simp add: ParseQuery_def parseQuery_pairs Values_index_foldl_append Cons
          del: foldl_Cons) (simp add: Values_index_def)
  then show ?thesis
    using Values_index_not_key [of k v]
    by (simp add: pairs_of_filter Values_keys_def)
qed

section \<open>Properties of \<open>NewHTTPConnection\<close>\<close>

lemma Values_index_Set:
  "Values_index (Values_Set q k x) k' = (if k' = k then [x] else Values_index q k')"
  by (simp add: Values_index_def Values_Set_def update_conv')

lemma URL_Query_Encode:
  "Values_index (URL_Query (u\<lparr>RawQuery := Encode q\<rparr>)) k = Values_index q k"
  by (simp add: URL_Query_def Query_Encode)

lemma URL_Query_Scheme: "URL_Query (u\<lparr>Scheme := s\<rparr>) = URL_Query u"
  by (simp add: URL_Query_def)

lemma bearerOptions_id:
  "k \<noteq> ''access_token'' \<Longrightarrow>
     Values_index (URL_Query (fst (snd (bearerOptions provider u heap)))) k
       = Values_index (URL_Query u) k"
  by (simp add: bearerOptions_def Let_def split_beta URL_Query_Encode Values_index_Set)

lemma bearerOptions_token:
  "Values_index (URL_Query (fst (snd (bearerOptions provider u heap)))) ''access_token''
     = [if Header_Get (snd (provider heap)) (fst (provider heap)) ''Authorization'' \<noteq> []
        then ReplaceAll (Header_Get (snd (provider heap)) (fst (provider heap)) ''Authorization'')
               ''Bearer '' []
        else []]"
  by (simp add: bearerOptions_def Let_def split_beta URL_Query_Encode Values_index_Set)

lemma dialWebSocket_trace:
  "\<exists>u hdr. trace (snd (dialWebSocket env hc nr reqURL w)) = trace w @ [WS_Dial (url_String env u) hdr]
      \<and> Values_index (URL_Query u) ''id'' = Values_index (URL_Query reqURL) ''id''
      \<and> (\<forall>provider. headers hc = Some provider \<longrightarrow>
            u = fst (snd (bearerOptions provider
                  (reqURL\<lparr>Scheme := (if Scheme reqURL = ''https'' then ''wss'' else ''ws'')\<rparr>)
                  (hdrs w))))"
proof (cases "headers hc")
  case None
  then have "trace (snd (dialWebSocket env hc nr reqURL w))
      = trace w @ [WS_Dial (url_String env
            (reqURL\<lparr>Scheme := (if Scheme reqURL = ''https'' then ''wss'' else ''ws'')\<rparr>)) None]"
    by (simp add: dialWebSocket_def Let_def deref_def emit_def split: sum.splits)
  moreover have "Values_index (URL_Query
       (reqURL\<lparr>Scheme := (if Scheme reqURL = ''https'' then ''wss'' else ''ws'')\<rparr>)) ''id''
      = Values_index (URL_Query reqURL) ''id''"
    by (simp add: URL_Query_Scheme)
  ultimately show ?thesis using None
    by (intro exI [of _ "reqURL\<lparr>Scheme := (if Scheme reqURL = ''https'' then ''wss'' else ''ws'')\<rparr>"]
          exI [of _ None]) simp
next
  case (Some provider)
  let ?u0 = "reqURL\<lparr>Scheme := (if Scheme reqURL = ''https'' then ''wss'' else ''ws'')\<rparr>"
  let ?b = "bearerOptions provider ?u0 (hdrs w)"
  have "trace (snd (dialWebSocket env hc nr reqURL w))
      = trace w @ [WS_Dial (url_String env (fst (snd ?b))) (deref (snd (snd ?b)) (fst ?b))]"
    using Some
    by (simp add: dialWebSocket_def Let_def emit_def split_beta split: sum.splits)
  moreover have "Values_index (URL_Query (fst (snd ?b))) ''id'' = Values_index (URL_Query reqURL) ''id''"
    by (simp add: bearerOptions_id URL_Query_Scheme)
  ultimately show ?thesis using Some
    by (intro exI [of _ "fst (snd ?b)"] exI [of _ "deref (snd (snd ?b)) (fst ?b)"]) simp
qed

lemma dialWebSocket_deferred:
  "deferred (snd (dialWebSocket env hc nr reqURL w)) = deferred w"
  by (simp add: dialWebSocket_def Let_def emit_def split_beta split: sum.splits option.splits)

lemma connectSSE_deferred:
  "deferred (snd (connectSSE env address hc nr reqURL w)) = deferred w"
  by (simp add: connectSSE_def Let_def emit_def split_beta split: sum.splits option.splits)

lemma connectSSE_trace:
  "trace (snd (connectSSE env address hc nr reqURL w)) = trace w
   \<or> (\<exists>req. trace (snd (connectSSE env address hc nr reqURL w)) = trace w @ [HTTP_Do req]
         \<and> Method req = ''GET''
         \<and> http_NewRequest env ''GET'' (url_String env reqURL) = Inr (URL req))"
  by (simp add: connectSSE_def Let_def emit_def split_beta split: sum.splits option.splits)

lemma Header_Set_deref:
  "deref heap r \<noteq> None \<Longrightarrow> Header_Set heap r k v \<noteq> None"
  by (auto simp: deref_def Header_Set_def split: option.splits if_splits)

lemma connectSSE_sends:
  assumes "http_NewRequest env ''GET'' (url_String env reqURL) = Inr g"
    and "\<forall>provider. headers hc = Some provider \<longrightarrow>
           deref (snd (provider (snd (make_Header (hdrs w)))))
             (fst (provider (snd (make_Header (hdrs w))))) \<noteq> None"
  shows "\<exists>req. trace (snd (connectSSE env address hc nr reqURL w)) = trace w @ [HTTP_Do req]
           \<and> Method req = ''GET'' \<and> URL req = g"
proof (cases "headers hc")
  case None
  have "Header_Set (snd (make_Header (hdrs w))) (fst (make_Header (hdrs w)))
          ''Accept'' ''text/event-stream'' \<noteq> None"
    by (simp add: make_Header_def Header_Set_def)
  then show ?thesis
    using assms(1) None
    by (auto simp: connectSSE_def Let_def emit_def split_beta split: sum.splits option.splits)
next
  case (Some provider)
  then have "Header_Set (snd (provider (snd (make_Header (hdrs w)))))
          (fst (provider (snd (make_Header (hdrs w))))) ''Accept'' ''text/event-stream'' \<noteq> None"
    using assms(2) by (simp add: Header_Set_deref)
  then show ?thesis
    using assms(1) Some
    by (auto simp: connectSSE_def Let_def emit_def split_beta split: sum.splits option.splits)
qed

lemma establish_unfold:
  "establish env address hc nr w =
     (case url_Parse env address of
        Inl err \<Rightarrow> (Inl err, w)
      | Inr u0 \<Rightarrow>
          if getTransferFormats env nr ''WebSockets'' \<noteq> None
            then dialWebSocket env hc nr
                   (u0\<lparr>RawQuery := Encode (Values_Set (URL_Query u0) ''id''
                      (if ConnectionToken nr \<noteq> [] then ConnectionToken nr else ConnectionID nr))\<rparr>) w
          else if getTransferFormats env nr ''ServerSentEvents'' \<noteq> None
            then connectSSE env address hc nr
                   (u0\<lparr>RawQuery := Encode (Values_Set (URL_Query u0) ''id''
                      (if ConnectionToken nr \<noteq> [] then ConnectionToken nr else ConnectionID nr))\<rparr>) w
          else (Inr None, w))"
  by (simp add: establish_def Let_def split: sum.splits)

lemma establish_deferred: "deferred (snd (establish env address hc nr w)) = deferred w"
  by (simp add: establish_unfold dialWebSocket_deferred connectSSE_deferred split: sum.splits)

lemma establish_trace:
  "trace (snd (establish env address hc nr w)) = trace w
   \<or> (\<exists>u hdr. trace (snd (establish env address hc nr w)) = trace w @ [WS_Dial (url_String env u) hdr]
         \<and> getTransferFormats env nr ''WebSockets'' \<noteq> None
         \<and> Values_index (URL_Query u) ''id''
              = [if ConnectionToken nr \<noteq> [] then ConnectionToken nr else ConnectionID nr]
         \<and> (\<forall>provider. headers hc = Some provider \<longrightarrow>
               Values_index (URL_Query u) ''access_token''
                 = [if Header_Get (snd (provider (hdrs w))) (fst (provider (hdrs w))) ''Authorization'' \<noteq> []
                    then ReplaceAll (Header_Get (snd (provider (hdrs w))) (fst (provider (hdrs w)))
                           ''Authorization'') ''Bearer '' []
                    else []]))
   \<or> (\<exists>u req. trace (snd (establish env address hc nr w)) = trace w @ [HTTP_Do req]
         \<and> Method req = ''GET''
         \<and> getTransferFormats env nr ''WebSockets'' = None
         \<and> http_NewRequest env ''GET'' (url_String env u) = Inr (URL req)
         \<and> Values_index (URL_Query u) ''id''
              = [if ConnectionToken nr \<noteq> [] then ConnectionToken nr else ConnectionID nr])"
proof (cases "url_Parse env address")
  case (Inl err)
  then show ?thesis by (simp add: establish_unfold)
next
  case (Inr u0)
  let ?rid = "if ConnectionToken nr \<noteq> [] then ConnectionToken nr else ConnectionID nr"
  let ?u = "u0\<lparr>RawQuery := Encode (Values_Set (URL_Query u0) ''id'' ?rid)\<rparr>"
  have id: "Values_index (URL_Query ?u) ''id'' = [?rid]"
    by (simp add: URL_Query_Encode Values_index_Set)
  show ?thesis
  proof (cases "getTransferFormats env nr ''WebSockets'' \<noteq> None")
    case True
    then have e: "establish env address hc nr w = dialWebSocket env hc nr ?u w"
      using Inr by (simp add: establish_unfold)
    obtain u hdr where
      "trace (snd (dialWebSocket env hc nr ?u w)) = trace w @ [WS_Dial (url_String env u) hdr]"
      "Values_index (URL_Query u) ''id'' = Values_index (URL_Query ?u) ''id''"
      "\<forall>provider. headers hc = Some provider \<longrightarrow>
            u = fst (snd (bearerOptions provider
                  (?u\<lparr>Scheme := (if Scheme ?u = ''https'' then ''wss'' else ''ws'')\<rparr>) (hdrs w)))"
      using dialWebSocket_trace [of env hc nr ?u w] by blast
    then show ?thesis
      using True id unfolding e
      by (intro disjI2 disjI1 exI [of _ u] exI [of _ hdr]) (simp add: bearerOptions_token)
  next
    case False
    note noWS = this
    show ?thesis
    proof (cases "getTransferFormats env nr ''ServerSentEvents'' \<noteq> None")
      case True
      then have e: "establish env address hc nr w = connectSSE env address hc nr ?u w"
        using Inr noWS by (simp add: establish_unfold)
      from connectSSE_trace [of env address hc nr ?u w] show ?thesis
      proof (elim disjE exE conjE)
        assume "trace (snd (connectSSE env address hc nr ?u w)) = trace w"
        then show ?thesis unfolding e by simp
      next
        fix req
        assume "trace (snd (connectSSE env address hc nr ?u w)) = trace w @ [HTTP_Do req]"
          "Method req = ''GET''"
          "http_NewRequest env ''GET'' (url_String env ?u) = Inr (URL req)"
        then show ?thesis
          using noWS id unfolding e
          by (intro disjI2 exI [of _ ?u] exI [of _ req]) simp
      qed
    next
      case False
      then show ?thesis using Inr noWS by (simp add: establish_unfold)
    qed
  qed
qed

lemma negotiateRequest_Method:
  "negotiateRequest env hc address heap = Inr (req, heap1) \<Longrightarrow> Method req = ''POST''"
  by (auto simp: negotiateRequest_def Let_def split_beta split: sum.splits)

lemma negotiate_cases:
  assumes "negotiate env address options \<lparr> hdrs = heap, trace = [], deferred = [] \<rparr> = (r, w)"
  shows "(trace w = [] \<and> deferred w = [] \<and> isl r)
     \<or> (\<exists>hc req. configure env options = Inr hc \<and> Method req = ''POST''
           \<and> ((isl (call_Do hc req) \<and> trace w = [HTTP_Do req] \<and> deferred w = [] \<and> isl r)
              \<or> (\<exists>resp. call_Do hc req = Inr resp \<and> deferred w = [Body_Close 0]
                    \<and> (if StatusCode resp = 200
                        then trace w = [HTTP_Do req, Body_ReadAll 0]
                             \<and> (\<forall>hc' nr. r = Inr (hc', nr) \<longrightarrow> hc' = hc)
                        else trace w = [HTTP_Do req] \<and> isl r))))"
proof (cases "configure env options")
  case (Inl err)
  with assms show ?thesis by (auto simp: negotiate_def)
next
  case hc: (Inr hc)
  show ?thesis
  proof (cases "negotiateRequest env hc address heap")
    case (Inl err)
    with assms hc show ?thesis by (auto simp: negotiate_def)
  next
    case (Inr p)
    obtain req heap1 where p: "p = (req, heap1)" by (cases p)
    have m: "Method req = ''POST''"
      using Inr negotiateRequest_Method unfolding p by blast
    show ?thesis
    proof (cases "call_Do hc req")
      case (Inl err)
      then have "trace w = [HTTP_Do req] \<and> deferred w = [] \<and> isl r"
        using assms hc Inr p by (auto simp: negotiate_def emit_def)
      with Inl hc m show ?thesis
        by (intro disjI2 exI [of _ hc] exI [of _ req]) simp
    next
      case (Inr resp)
      have "deferred w = [Body_Close 0]
            \<and> (if StatusCode resp = 200
                then trace w = [HTTP_Do req, Body_ReadAll 0]
                     \<and> (\<forall>hc' nr. r = Inr (hc', nr) \<longrightarrow> hc' = hc)
                else trace w = [HTTP_Do req] \<and> isl r)"
        using assms hc \<open>negotiateRequest env hc address heap = Inr p\<close> p Inr
        by (auto simp: negotiate_def emit_def defer_call_def Let_def split: sum.splits if_splits)
      with Inr hc m show ?thesis
        by (intro disjI2 exI [of _ hc] exI [of _ req]) blast
    qed
  qed
qed

lemma negotiate_success:
  assumes "negotiate env address options \<lparr> hdrs = heap, trace = [], deferred = [] \<rparr>
             = (Inr (hc, nr), w1)"
  shows "\<exists>req. Method req = ''POST'' \<and> trace w1 = [HTTP_Do req, Body_ReadAll 0]
           \<and> deferred w1 = [Body_Close 0] \<and> configure env options = Inr hc"
  using negotiate_cases [OF assms]
  by (auto split: if_splits)

lemma NewHTTPConnection_negotiated:
  assumes "negotiate env address options \<lparr> hdrs = heap, trace = [], deferred = [] \<rparr>
             = (Inr (hc, nr), w1)"
  shows "fst (NewHTTPConnection env address options heap) = fst (establish env address hc nr w1)"
    and "snd (snd (NewHTTPConnection env address options heap))
           = trace (snd (establish env address hc nr w1)) @ [Body_Close 0]"
  using negotiate_success [OF assms] assms establish_deferred [of env address hc nr w1]
  by (auto simp: NewHTTPConnection_def split_beta)

lemma NewHTTPConnection_failed:
  assumes "negotiate env address options \<lparr> hdrs = heap, trace = [], deferred = [] \<rparr> = (Inl err, w1)"
  shows "fst (NewHTTPConnection env address options heap) = Inl err"
    and "snd (snd (NewHTTPConnection env address options heap)) = trace w1 @ deferred w1"
  using assms by (auto simp: NewHTTPConnection_def)

text \<open>
  Claim C3. For every negotiate response \<open>nr\<close> that the first half of
  \<open>NewHTTPConnection\<close> obtains, every URL used to establish a transport (the text
  handed to \<open>websocket.Dial\<close>, and the text the \<open>GET\<close> request of the event stream is
  made from) is the text of a URL whose query has exactly one value for \<open>id\<close>: the
  connection token when it is not empty, and the connection id otherwise. And the
  transport is established with such a URL: when the address parses and \<open>WebSockets\<close>
  is advertised, a dial with such a URL takes place; when only \<open>ServerSentEvents\<close> is
  advertised, the \<open>GET\<close> request made from the text of the address with that \<open>id\<close> is
  sent, provided that text is accepted as a request URL and the header provider, if
  set, does not return a nil header.
\<close>

theorem transport_url_carries_id:
  assumes "negotiate env address options \<lparr> hdrs = heap, trace = [], deferred = [] \<rparr>
             = (Inr (httpConn, nr), w1)"
  shows "(\<forall>e \<in> set (snd (snd (NewHTTPConnection env address options heap))).
           (\<forall>url hdr. e = WS_Dial url hdr \<longrightarrow>
              (\<exists>u. url = url_String env u
                 \<and> Values_index (URL_Query u) ''id''
                      = [if ConnectionToken nr \<noteq> [] then ConnectionToken nr else ConnectionID nr]))
         \<and> (\<forall>req. e = HTTP_Do req \<and> Method req = ''GET'' \<longrightarrow>
              (\<exists>u. http_NewRequest env ''GET'' (url_String env u) = Inr (URL req)
                 \<and> Values_index (URL_Query u) ''id''
                      = [if ConnectionToken nr \<noteq> [] then ConnectionToken nr else ConnectionID nr])))
       \<and> (\<forall>u0. url_Parse env address = Inr u0
                \<and> getTransferFormats env nr ''WebSockets'' \<noteq> None \<longrightarrow>
              (\<exists>u hdr. WS_Dial (url_String env u) hdr
                    \<in> set (snd (snd (NewHTTPConnection env address options heap)))
                 \<and> Values_index (URL_Query u) ''id''
                      = [if ConnectionToken nr \<noteq> [] then ConnectionToken nr else ConnectionID nr]))
       \<and> (\<forall>u0 g. url_Parse env address = Inr u0
                \<and> getTransferFormats env nr ''WebSockets'' = None
                \<and> getTransferFormats env nr ''ServerSentEvents'' \<noteq> None
                \<and> http_NewRequest env ''GET''
                     (url_String env (u0\<lparr>RawQuery := Encode (Values_Set (URL_Query u0) ''id''
                        (if ConnectionToken nr \<noteq> [] then ConnectionToken nr else ConnectionID nr))\<rparr>))
                    = Inr g
                \<and> (\<forall>provider. headers httpConn = Some provider \<longrightarrow>
                      deref (snd (provider (snd (make_Header (hdrs w1)))))
                        (fst (provider (snd (make_Header (hdrs w1))))) \<noteq> None) \<longrightarrow>
              Values_index (URL_Query (u0\<lparr>RawQuery := Encode (Values_Set (URL_Query u0) ''id''
                        (if ConnectionToken nr \<noteq> [] then ConnectionToken nr else ConnectionID nr))\<rparr>))
                  ''id''
                = [if ConnectionToken nr \<noteq> [] then ConnectionToken nr else ConnectionID nr]
              \<and> (\<exists>req. HTTP_Do req \<in> set (snd (snd (NewHTTPConnection env address options heap)))
                    \<and> Method req = ''GET'' \<and> URL req = g))"
proof -
  let ?rid = "if ConnectionToken nr \<noteq> [] then ConnectionToken nr else ConnectionID nr"
  obtain req0 where r: "Method req0 = ''POST''" "trace w1 = [HTTP_Do req0, Body_ReadAll 0]"
    using negotiate_success [OF assms] by blast
  have tr: "snd (snd (NewHTTPConnection env address options heap))
      = trace (snd (establish env address httpConn nr w1)) @ [Body_Close 0]"
    by (rule NewHTTPConnection_negotiated(2) [OF assms])
  have a: "\<forall>e \<in> set (snd (snd (NewHTTPConnection env address options heap))).
           (\<forall>url hdr. e = WS_Dial url hdr \<longrightarrow>
              (\<exists>u. url = url_String env u \<and> Values_index (URL_Query u) ''id'' = [?rid]))
         \<and> (\<forall>req. e = HTTP_Do req \<and> Method req = ''GET'' \<longrightarrow>
              (\<exists>u. http_NewRequest env ''GET'' (url_String env u) = Inr (URL req)
                 \<and> Values_index (URL_Query u) ''id'' = [?rid]))"
    using establish_trace [of env address httpConn nr w1]
  proof (elim disjE exE conjE)
    assume "trace (snd (establish env address httpConn nr w1)) = trace w1"
    then show ?thesis using r by (auto simp: tr)
  next
    fix u hdr
    assume "trace (snd (establish env address httpConn nr w1)) = trace w1 @ [WS_Dial (url_String env u) hdr]"
      "Values_index (URL_Query u) ''id'' = [?rid]"
    then show ?thesis using r by (auto simp: tr)
  next
    fix u req
    assume "trace (snd (establish env address httpConn nr w1)) = trace w1 @ [HTTP_Do req]"
      "http_NewRequest env ''GET'' (url_String env u) = Inr (URL req)"
      "Values_index (URL_Query u) ''id'' = [?rid]"
    then show ?thesis using r by (auto simp: tr)
  qed
  have b: "\<exists>u hdr. WS_Dial (url_String env u) hdr
                    \<in> set (snd (snd (NewHTTPConnection env address options heap)))
                 \<and> Values_index (URL_Query u) ''id'' = [?rid]"
    if "url_Parse env address = Inr u0" "getTransferFormats env nr ''WebSockets'' \<noteq> None" for u0
  proof -
    let ?u = "u0\<lparr>RawQuery := Encode (Values_Set (URL_Query u0) ''id'' ?rid)\<rparr>"
    have e: "establish env address httpConn nr w1 = dialWebSocket env httpConn nr ?u w1"
      using that by (simp add: establish_unfold)
    obtain u hdr where d:
      "trace (snd (dialWebSocket env httpConn nr ?u w1)) = trace w1 @ [WS_Dial (url_String env u) hdr]"
      "Values_index (URL_Query u) ''id'' = Values_index (URL_Query ?u) ''id''"
      using dialWebSocket_trace [of env httpConn nr ?u w1] by blast
    have "WS_Dial (url_String env u) hdr \<in> set (snd (snd (NewHTTPConnection env address options heap)))"
      using d(1) by (simp add: tr e)
    moreover have "Values_index (URL_Query u) ''id'' = [?rid]"
      using d(2) by (simp add: URL_Query_Encode Values_index_Set)
    ultimately show ?thesis by blast
  qed
  have c: "Values_index (URL_Query (u0\<lparr>RawQuery := Encode (Values_Set (URL_Query u0) ''id'' ?rid)\<rparr>)) ''id''
                = [?rid]
              \<and> (\<exists>req. HTTP_Do req \<in> set (snd (snd (NewHTTPConnection env address options heap)))
                    \<and> Method req = ''GET'' \<and> URL req = g)"
    if p: "url_Parse env address = Inr u0" "getTransferFormats env nr ''WebSockets'' = None"
      "getTransferFormats env nr ''ServerSentEvents'' \<noteq> None"
      "http_NewRequest env ''GET''
         (url_String env (u0\<lparr>RawQuery := Encode (Values_Set (URL_Query u0) ''id'' ?rid)\<rparr>)) = Inr g"
      "\<forall>provider. headers httpConn = Some provider \<longrightarrow>
          deref (snd (provider (snd (make_Header (hdrs w1)))))
            (fst (provider (snd (make_Header (hdrs w1))))) \<noteq> None"
    for u0 g
  proof -
    let ?u = "u0\<lparr>RawQuery := Encode (Values_Set (URL_Query u0) ''id'' ?rid)\<rparr>"
    have e: "establish env address httpConn nr w1 = connectSSE env address httpConn nr ?u w1"
      using p(1-3) by (simp add: establish_unfold)
    obtain req where
      "trace (snd (connectSSE env address httpConn nr ?u w1)) = trace w1 @ [HTTP_Do req]"
      "Method req = ''GET''" "URL req = g"
      using connectSSE_sends [OF p(4) p(5), of address nr] by blast
    then have "HTTP_Do req \<in> set (snd (snd (NewHTTPConnection env address options heap)))
        \<and> Method req = ''GET'' \<and> URL req = g"
      by (simp add: tr e)
    moreover have "Values_index (URL_Query ?u) ''id'' = [?rid]"
      by (simp add: URL_Query_Encode Values_index_Set)
    ultimately show ?thesis by blast
  qed
  from a b c show ?thesis by blast
qed

text \<open>
  Claim C4. When the negotiate response advertises neither \<open>WebSockets\<close> nor
  \<open>ServerSentEvents\<close> (and \<open>url.Parse\<close> accepts the address, which was parsed before as
  part of the negotiate URL), \<open>NewHTTPConnection\<close> returns a nil connection and a nil
  error, and its only effects are the negotiate request, the reading of its response and
  the closing of its body: nothing is dialled and no second request is sent.
\<close>

theorem no_supported_transport_nil_nil:
  assumes "negotiate env address options \<lparr> hdrs = heap, trace = [], deferred = [] \<rparr>
             = (Inr (httpConn, nr), w1)"
    and "url_Parse env address = Inr u"
    and "getTransferFormats env nr ''WebSockets'' = None"
    and "getTransferFormats env nr ''ServerSentEvents'' = None"
  shows "fst (NewHTTPConnection env address options heap) = Inr None
         \<and> (\<exists>req. Method req = ''POST''
               \<and> snd (snd (NewHTTPConnection env address options heap))
                    = [HTTP_Do req, Body_ReadAll 0, Body_Close 0])"
proof -
  have "establish env address httpConn nr w1 = (Inr None, w1)"
    using assms(2-4) by (simp add: establish_unfold)
  then show ?thesis
    using NewHTTPConnection_negotiated [OF assms(1)] negotiate_success [OF assms(1)]
    by auto
qed

text \<open>
  Claim C9. When a header provider is set and the header it supplies to the WebSocket
  case has no \<open>Authorization\<close> value, every URL handed to \<open>websocket.Dial\<close> is the text
  of a URL whose query has the parameter \<open>access_token\<close> with the empty string as its one
  value; and a dial takes place whenever the address parses and \<open>WebSockets\<close> is
  advertised.
\<close>

theorem no_Authorization_empty_access_token:
  assumes "negotiate env address options \<lparr> hdrs = heap, trace = [], deferred = [] \<rparr>
             = (Inr (httpConn, nr), w1)"
    and "headers httpConn = Some provider"
    and "Header_Get (snd (provider (hdrs w1))) (fst (provider (hdrs w1))) ''Authorization'' = []"
  shows "(\<forall>url hdr. WS_Dial url hdr \<in> set (snd (snd (NewHTTPConnection env address options heap)))
            \<longrightarrow> (\<exists>u. url = url_String env u
                    \<and> Values_index (URL_Query u) ''access_token'' = [[]]))
         \<and> (\<forall>u0. url_Parse env address = Inr u0
                  \<and> getTransferFormats env nr ''WebSockets'' \<noteq> None
            \<longrightarrow> (\<exists>url hdr. WS_Dial url hdr
                    \<in> set (snd (snd (NewHTTPConnection env address options heap)))))"
proof -
  obtain req0 where r: "Method req0 = ''POST''" "trace w1 = [HTTP_Do req0, Body_ReadAll 0]"
    using negotiate_success [OF assms(1)] by blast
  have tr: "snd (snd (NewHTTPConnection env address options heap))
      = trace (snd (establish env address httpConn nr w1)) @ [Body_Close 0]"
    by (rule NewHTTPConnection_negotiated(2) [OF assms(1)])
  have a: "\<forall>url hdr. WS_Dial url hdr \<in> set (snd (snd (NewHTTPConnection env address options heap)))
            \<longrightarrow> (\<exists>u. url = url_String env u
                    \<and> Values_index (URL_Query u) ''access_token'' = [[]])"
    using establish_trace [of env address httpConn nr w1] r assms(2,3)
    by (elim disjE exE conjE) (auto simp: tr)
  have b: "\<exists>url hdr. WS_Dial url hdr \<in> set (snd (snd (NewHTTPConnection env address options heap)))"
    if "url_Parse env address = Inr u0" "getTransferFormats env nr ''WebSockets'' \<noteq> None" for u0
  proof -
    let ?u = "u0\<lparr>RawQuery := Encode (Values_Set (URL_Query u0) ''id''
                  (if ConnectionToken nr \<noteq> [] then ConnectionToken nr else ConnectionID nr))\<rparr>"
    have e: "establish env address httpConn nr w1 = dialWebSocket env httpConn nr ?u w1"
      using that by (simp add: establish_unfold)
    obtain u hdr where
      "trace (snd (dialWebSocket env httpConn nr ?u w1)) = trace w1 @ [WS_Dial (url_String env u) hdr]"
      using dialWebSocket_trace [of env httpConn nr ?u w1] by blast
    then have "WS_Dial (url_String env u) hdr \<in> set (snd (snd (NewHTTPConnection env address options heap)))"
      by (simp add: tr e)
    then show ?thesis by blast
  qed
  from a b show ?thesis by blast
qed

text \<open>
  Claim C7, amended. Whenever the negotiate \<open>POST\<close> obtains a response, that request is
  the first effect and the only \<open>POST\<close>, sent once; the body of the response is closed
  exactly once, as the last effect before the function returns, whatever the outcome;
  and the body is read with \<open>io.ReadAll\<close> if and only if the status code is 200, so that
  on any other status it is closed without having been read.
\<close>

theorem negotiate_body_closed_read_on_200:
  assumes "configure env options = Inr httpConn"
    and "HTTP_Do req \<in> set (snd (snd (NewHTTPConnection env address options heap)))"
    and "Method req = ''POST''"
    and "call_Do httpConn req = Inr resp"
  shows "hd (snd (snd (NewHTTPConnection env address options heap))) = HTTP_Do req
         \<and> (\<forall>req'. HTTP_Do req' \<in> set (snd (snd (NewHTTPConnection env address options heap)))
                    \<and> Method req' = ''POST'' \<longrightarrow> req' = req)
         \<and> count_list (snd (snd (NewHTTPConnection env address options heap))) (HTTP_Do req) = 1
         \<and> last (snd (snd (NewHTTPConnection env address options heap))) = Body_Close 0
         \<and> count_list (snd (snd (NewHTTPConnection env address options heap))) (Body_Close 0) = 1
         \<and> (Body_ReadAll 0 \<in> set (snd (snd (NewHTTPConnection env address options heap)))
              \<longleftrightarrow> StatusCode resp = 200)"
proof -
  let ?tr = "snd (snd (NewHTTPConnection env address options heap))"
  obtain r w1 where n: "negotiate env address options \<lparr> hdrs = heap, trace = [], deferred = [] \<rparr> = (r, w1)"
    by (cases "negotiate env address options \<lparr> hdrs = heap, trace = [], deferred = [] \<rparr>")
  have shape: "\<exists>evs. ?tr = trace w1 @ evs @ deferred w1
        \<and> (isl r \<longrightarrow> evs = [])
        \<and> (evs = [] \<or> (\<exists>url hdr. evs = [WS_Dial url hdr])
              \<or> (\<exists>g. evs = [HTTP_Do g] \<and> Method g = ''GET''))"
  proof (cases r)
    case (Inl err)
    then show ?thesis using NewHTTPConnection_failed(2) [of env address options heap err w1] n
      by simp
  next
    case (Inr p)
    obtain hc nr where p: "p = (hc, nr)" by (cases p)
    have "?tr = trace (snd (establish env address hc nr w1)) @ deferred w1"
      using NewHTTPConnection_negotiated(2) [of env address options heap hc nr w1]
        negotiate_success [of env address options heap hc nr w1] n Inr p by auto
    then show ?thesis
      using establish_trace [of env address hc nr w1] Inr
      by (elim disjE exE conjE) auto
  qed
  then obtain evs where evs: "?tr = trace w1 @ evs @ deferred w1" "isl r \<longrightarrow> evs = []"
    "evs = [] \<or> (\<exists>url hdr. evs = [WS_Dial url hdr]) \<or> (\<exists>g. evs = [HTTP_Do g] \<and> Method g = ''GET'')"
    by blast
  from negotiate_cases [OF n] show ?thesis
  proof (elim disjE exE conjE)
    assume "trace w1 = []" "deferred w1 = []" "isl r"
    then show ?thesis using evs assms(2) by simp
  next
    fix hc rq
    assume "configure env options = Inr hc" "Method rq = ''POST''" "isl (call_Do hc rq)"
      "trace w1 = [HTTP_Do rq]" "deferred w1 = []" "isl r"
    then show ?thesis using evs assms by auto
  next
    fix hc rq rsp
    assume a: "configure env options = Inr hc" "Method rq = ''POST''" "call_Do hc rq = Inr rsp"
      "deferred w1 = [Body_Close 0]"
      "if StatusCode rsp = 200
       then trace w1 = [HTTP_Do rq, Body_ReadAll 0] \<and> (\<forall>hc' nr. r = Inr (hc', nr) \<longrightarrow> hc' = hc)
       else trace w1 = [HTTP_Do rq] \<and> isl r"
    have hc: "hc = httpConn" using a(1) assms(1) by simp
    have "req = rq"
      using assms(2,3) evs a(2,4,5) by (auto split: if_splits)
    then have "rsp = resp" using a(3) assms(4) hc by simp
    show ?thesis
      using evs a(2,4,5) \<open>req = rq\<close> \<open>rsp = resp\<close>
      by (auto split: if_splits)
  qed
qed

subsection \<open>Concrete runs\<close>

lemma example_negotiate:
  "negotiate (exampleEnv 200 ''200 OK'' (exampleResponse ts)) ''https://example.test/hub''
      [Some (WithHTTPHeaders (Some freshPlain))] \<lparr> hdrs = [], trace = [], deferred = [] \<rparr>
   = (Inr (\<lparr> client = Some (exampleServer 200 ''200 OK''), headers = Some freshPlain,
              queryString = None \<rparr>, exampleResponse ts),
      \<lparr> hdrs = [[], [(''X-Client'', [''go''])]],
        trace = [HTTP_Do \<lparr> Method = ''POST'',
                           URL = \<lparr> Scheme = ''https'', RawQuery = [],
                                   Other = ''//example.test/hub/negotiate'' \<rparr>,
                           Header = Some [(''X-Client'', [''go''])] \<rparr>,
                 Body_ReadAll 0],
        deferred = [Body_Close 0] \<rparr>)"
  by (simp add: negotiate_def negotiateRequest_def configure_def call_Do_def emit_def
        defer_call_def make_Header_def deref_def WithHTTPHeaders_def exampleServer_def
        exampleURL_def exampleEnv_def freshPlain_def Cut_def Let_def)

lemma example_ws_run:
  "NewHTTPConnection (exampleEnv 200 ''200 OK'' (exampleResponse [''WebSockets'']))
      ''https://example.test/hub'' [Some (WithHTTPHeaders (Some freshPlain))] []
   = (Inr (Some (''wss://example.test/hub?access_token=&id=tok'', ''cid'')),
      [[], [(''X-Client'', [''go''])], [(''X-Client'', [''go''])], [(''X-Client'', [''go''])]],
      [HTTP_Do \<lparr> Method = ''POST'',
                 URL = \<lparr> Scheme = ''https'', RawQuery = [],
                         Other = ''//example.test/hub/negotiate'' \<rparr>,
                 Header = Some [(''X-Client'', [''go''])] \<rparr>,
       Body_ReadAll 0,
       WS_Dial ''wss://example.test/hub?access_token=&id=tok'' (Some [(''X-Client'', [''go''])]),
       Body_Close 0])"
  by code_simp

lemma example_negotiate_idOnly:
  "negotiate (exampleEnv 200 ''200 OK'' (idOnlyResponse ts)) ''https://example.test/hub''
      [] \<lparr> hdrs = [], trace = [], deferred = [] \<rparr>
   = (Inr (\<lparr> client = Some (exampleServer 200 ''200 OK''), headers = None,
              queryString = None \<rparr>, idOnlyResponse ts),
      \<lparr> hdrs = [[]],
        trace = [HTTP_Do \<lparr> Method = ''POST'',
                           URL = \<lparr> Scheme = ''https'', RawQuery = [],
                                   Other = ''//example.test/hub/negotiate'' \<rparr>,
                           Header = Some [] \<rparr>,
                 Body_ReadAll 0],
        deferred = [Body_Close 0] \<rparr>)"
  by (simp add: negotiate_def negotiateRequest_def configure_def call_Do_def emit_def
        defer_call_def make_Header_def deref_def exampleServer_def
        exampleURL_def exampleEnv_def Cut_def Let_def)

lemma example_sse_run:
  "NewHTTPConnection (exampleEnv 200 ''200 OK'' (idOnlyResponse [''ServerSentEvents'']))
      ''https://example.test/hub'' [] []
   = (Inr (Some (''https://example.test/hub'', ''cid'')),
      [[], [(''Accept'', [''text/event-stream''])]],
      [HTTP_Do \<lparr> Method = ''POST'',
                 URL = \<lparr> Scheme = ''https'', RawQuery = [],
                         Other = ''//example.test/hub/negotiate'' \<rparr>,
                 Header = Some [] \<rparr>,
       Body_ReadAll 0,
       HTTP_Do \<lparr> Method = ''GET'',
                 URL = \<lparr> Scheme = ''https'', RawQuery = ''id=cid'',
                         Other = ''//example.test/hub'' \<rparr>,
                 Header = Some [(''Accept'', [''text/event-stream''])] \<rparr>,
       Body_Close 0])"
  by code_simp

theorem transport_url_carries_id_witness:
  "negotiate (exampleEnv 200 ''200 OK'' (exampleResponse [''WebSockets''])) ''https://example.test/hub''
      [Some (WithHTTPHeaders (Some freshPlain))] \<lparr> hdrs = [], trace = [], deferred = [] \<rparr>
   = (Inr (\<lparr> client = Some (exampleServer 200 ''200 OK''), headers = Some freshPlain,
              queryString = None \<rparr>, exampleResponse [''WebSockets'']),
      \<lparr> hdrs = [[], [(''X-Client'', [''go''])]],
        trace = [HTTP_Do \<lparr> Method = ''POST'',
                           URL = \<lparr> Scheme = ''https'', RawQuery = [],
                                   Other = ''//example.test/hub/negotiate'' \<rparr>,
                           Header = Some [(''X-Client'', [''go''])] \<rparr>,
                 Body_ReadAll 0],
        deferred = [Body_Close 0] \<rparr>)
   \<and> WS_Dial ''wss://example.test/hub?access_token=&id=tok'' (Some [(''X-Client'', [''go''])])
       \<in> set (snd (snd (NewHTTPConnection (exampleEnv 200 ''200 OK'' (exampleResponse [''WebSockets'']))
             ''https://example.test/hub'' [Some (WithHTTPHeaders (Some freshPlain))] [])))
   \<and> (\<exists>u. ''wss://example.test/hub?access_token=&id=tok''
            = url_String (exampleEnv 200 ''200 OK'' (exampleResponse [''WebSockets''])) u
          \<and> Values_index (URL_Query u) ''id'' = [''tok''])
   \<and> url_Parse (exampleEnv 200 ''200 OK'' (exampleResponse [''WebSockets''])) ''https://example.test/hub''
       = Inr (exampleURL ''https://example.test/hub'')
   \<and> getTransferFormats (exampleEnv 200 ''200 OK'' (exampleResponse [''WebSockets'']))
         (exampleResponse [''WebSockets'']) ''WebSockets'' \<noteq> None
   \<and> (\<exists>u hdr. WS_Dial (url_String (exampleEnv 200 ''200 OK'' (exampleResponse [''WebSockets''])) u) hdr
          \<in> set (snd (snd (NewHTTPConnection (exampleEnv 200 ''200 OK'' (exampleResponse [''WebSockets'']))
                ''https://example.test/hub'' [Some (WithHTTPHeaders (Some freshPlain))] [])))
          \<and> Values_index (URL_Query u) ''id'' = [''tok''])
   \<and> negotiate (exampleEnv 200 ''200 OK'' (idOnlyResponse [''ServerSentEvents'']))
         ''https://example.test/hub'' [] \<lparr> hdrs = [], trace = [], deferred = [] \<rparr>
       = (Inr (\<lparr> client = Some (exampleServer 200 ''200 OK''), headers = None,
                  queryString = None \<rparr>, idOnlyResponse [''ServerSentEvents'']),
          \<lparr> hdrs = [[]],
            trace = [HTTP_Do \<lparr> Method = ''POST'',
                           URL = \<lparr> Scheme = ''https'', RawQuery = [],
                                   Other = ''//example.test/hub/negotiate'' \<rparr>,
                           Header = Some [] \<rparr>,
                     Body_ReadAll 0],
            deferred = [Body_Close 0] \<rparr>)
   \<and> getTransferFormats (exampleEnv 200 ''200 OK'' (idOnlyResponse [''ServerSentEvents'']))
         (idOnlyResponse [''ServerSentEvents'']) ''WebSockets'' = None
   \<and> getTransferFormats (exampleEnv 200 ''200 OK'' (idOnlyResponse [''ServerSentEvents'']))
         (idOnlyResponse [''ServerSentEvents'']) ''ServerSentEvents'' \<noteq> None
   \<and> http_NewRequest (exampleEnv 200 ''200 OK'' (idOnlyResponse [''ServerSentEvents''])) ''GET''
         ''https://example.test/hub?id=cid''
       = Inr \<lparr> Scheme = ''https'', RawQuery = ''id=cid'', Other = ''//example.test/hub'' \<rparr>
   \<and> Values_index (URL_Query \<lparr> Scheme = ''https'', RawQuery = ''id=cid'',
                                 Other = ''//example.test/hub'' \<rparr>) ''id'' = [''cid'']
   \<and> (\<exists>req. HTTP_Do req
          \<in> set (snd (snd (NewHTTPConnection
                (exampleEnv 200 ''200 OK'' (idOnlyResponse [''ServerSentEvents'']))
                ''https://example.test/hub'' [] [])))
          \<and> Method req = ''GET''
          \<and> URL req = \<lparr> Scheme = ''https'', RawQuery = ''id=cid'', Other = ''//example.test/hub'' \<rparr>)"
proof -
  let ?E = "exampleEnv 200 ''200 OK'' (exampleResponse [''WebSockets''])"
  let ?S = "exampleEnv 200 ''200 OK'' (idOnlyResponse [''ServerSentEvents''])"
  let ?g = "\<lparr> Scheme = ''https'', RawQuery = ''id=cid'', Other = ''//example.test/hub'' \<rparr>"
  note n = example_negotiate [of "[''WebSockets'']"]
  note m = example_negotiate_idOnly [of "[''ServerSentEvents'']"]
  have d: "WS_Dial ''wss://example.test/hub?access_token=&id=tok'' (Some [(''X-Client'', [''go''])])
       \<in> set (snd (snd (NewHTTPConnection ?E
             ''https://example.test/hub'' [Some (WithHTTPHeaders (Some freshPlain))] [])))"
    by (simp add: example_ws_run)
  have t: "(if ConnectionToken (exampleResponse [''WebSockets'']) \<noteq> []
            then ConnectionToken (exampleResponse [''WebSockets''])
            else ConnectionID (exampleResponse [''WebSockets''])) = ''tok''"
    by (simp add: exampleResponse_def)
  have i: "(if ConnectionToken (idOnlyResponse [''ServerSentEvents'']) \<noteq> []
            then ConnectionToken (idOnlyResponse [''ServerSentEvents''])
            else ConnectionID (idOnlyResponse [''ServerSentEvents''])) = ''cid''"
    by (simp add: idOnlyResponse_def)
  have p: "url_Parse ?E ''https://example.test/hub'' = Inr (exampleURL ''https://example.test/hub'')"
    by (simp add: exampleEnv_def)
  have q: "url_Parse ?S ''https://example.test/hub'' = Inr (exampleURL ''https://example.test/hub'')"
    by (simp add: exampleEnv_def)
  have g1: "getTransferFormats ?E (exampleResponse [''WebSockets'']) ''WebSockets'' \<noteq> None"
    by (simp add: exampleEnv_def exampleResponse_def spec_getTransferFormats_def)
  have g2: "getTransferFormats ?S (idOnlyResponse [''ServerSentEvents'']) ''WebSockets'' = None"
    by (simp add: exampleEnv_def idOnlyResponse_def spec_getTransferFormats_def)
  have g3: "getTransferFormats ?S (idOnlyResponse [''ServerSentEvents'']) ''ServerSentEvents'' \<noteq> None"
    by (simp add: exampleEnv_def idOnlyResponse_def spec_getTransferFormats_def)
  have s: "url_String ?S ?g = ''https://example.test/hub?id=cid''"
    by code_simp
  have r: "http_NewRequest ?S ''GET'' ''https://example.test/hub?id=cid'' = Inr ?g"
    by code_simp
  have e: "(exampleURL ''https://example.test/hub'')
             \<lparr>RawQuery := Encode (Values_Set (URL_Query (exampleURL ''https://example.test/hub''))
                 ''id'' ''cid'')\<rparr> = ?g"
    by code_simp
  have h: "\<forall>provider. headers \<lparr> client = Some (exampleServer 200 ''200 OK''), headers = None,
              queryString = None \<rparr> = Some provider \<longrightarrow>
            deref (snd (provider (snd (make_Header (hdrs \<lparr> hdrs = [[]],
        trace = [HTTP_Do \<lparr> Method = ''POST'',
                           URL = \<lparr> Scheme = ''https'', RawQuery = [],
                                   Other = ''//example.test/hub/negotiate'' \<rparr>,
                           Header = Some [] \<rparr>,
                 Body_ReadAll 0],
        deferred = [Body_Close 0] \<rparr>)))))
              (fst (provider (snd (make_Header (hdrs \<lparr> hdrs = [[]],
        trace = [HTTP_Do \<lparr> Method = ''POST'',
                           URL = \<lparr> Scheme = ''https'', RawQuery = [],
                                   Other = ''//example.test/hub/negotiate'' \<rparr>,
                           Header = Some [] \<rparr>,
                 Body_ReadAll 0],
        deferred = [Body_Close 0] \<rparr>))))) \<noteq> None"
    by simp
  note T = transport_url_carries_id [OF n]
  note U = transport_url_carries_id [OF m]
  have w1: "\<exists>u. ''wss://example.test/hub?access_token=&id=tok'' = url_String ?E u
          \<and> Values_index (URL_Query u) ''id'' = [''tok'']"
    using T [THEN conjunct1, THEN bspec, OF d] unfolding t by blast
  have w2: "\<exists>u hdr. WS_Dial (url_String ?E u) hdr
          \<in> set (snd (snd (NewHTTPConnection ?E
                ''https://example.test/hub'' [Some (WithHTTPHeaders (Some freshPlain))] [])))
          \<and> Values_index (URL_Query u) ''id'' = [''tok'']"
    using T [THEN conjunct2, THEN conjunct1] p g1 unfolding t by blast
  have w3: "Values_index (URL_Query ?g) ''id'' = [''cid'']
     \<and> (\<exists>req. HTTP_Do req
          \<in> set (snd (snd (NewHTTPConnection ?S ''https://example.test/hub'' [] [])))
          \<and> Method req = ''GET'' \<and> URL req = ?g)"
    using U [THEN conjunct2, THEN conjunct2, rule_format, of "exampleURL ''https://example.test/hub''" ?g]
      q g2 g3 r h unfolding i e s by blast
  from n d w1 p g1 w2 m g2 g3 r w3 show ?thesis by simp
qed

lemma example_getTransferFormats:
  "getTransferFormats (exampleEnv code status nr) (exampleResponse [''LongPolling'']) ''WebSockets'' = None"
  "getTransferFormats (exampleEnv code status nr) (exampleResponse [''LongPolling'']) ''ServerSentEvents'' = None"
  by (simp_all add: exampleEnv_def exampleResponse_def spec_getTransferFormats_def)

theorem no_supported_transport_nil_nil_witness:
  "negotiate (exampleEnv 200 ''200 OK'' (exampleResponse [''LongPolling''])) ''https://example.test/hub''
      [Some (WithHTTPHeaders (Some freshPlain))] \<lparr> hdrs = [], trace = [], deferred = [] \<rparr>
   = (Inr (\<lparr> client = Some (exampleServer 200 ''200 OK''), headers = Some freshPlain,
              queryString = None \<rparr>, exampleResponse [''LongPolling'']),
      \<lparr> hdrs = [[], [(''X-Client'', [''go''])]],
        trace = [HTTP_Do \<lparr> Method = ''POST'',
                           URL = \<lparr> Scheme = ''https'', RawQuery = [],
                                   Other = ''//example.test/hub/negotiate'' \<rparr>,
                           Header = Some [(''X-Client'', [''go''])] \<rparr>,
                 Body_ReadAll 0],
        deferred = [Body_Close 0] \<rparr>)
   \<and> url_Parse (exampleEnv 200 ''200 OK'' (exampleResponse [''LongPolling''])) ''https://example.test/hub''
       = Inr (exampleURL ''https://example.test/hub'')
   \<and> getTransferFormats (exampleEnv 200 ''200 OK'' (exampleResponse [''LongPolling'']))
         (exampleResponse [''LongPolling'']) ''WebSockets'' = None
   \<and> getTransferFormats (exampleEnv 200 ''200 OK'' (exampleResponse [''LongPolling'']))
         (exampleResponse [''LongPolling'']) ''ServerSentEvents'' = None
   \<and> fst (NewHTTPConnection (exampleEnv 200 ''200 OK'' (exampleResponse [''LongPolling'']))
         ''https://example.test/hub'' [Some (WithHTTPHeaders (Some freshPlain))] []) = Inr None"
proof -
  note n = example_negotiate [of "[''LongPolling'']"]
  have p: "url_Parse (exampleEnv 200 ''200 OK'' (exampleResponse [''LongPolling''])) ''https://example.test/hub''
       = Inr (exampleURL ''https://example.test/hub'')"
    by (simp add: exampleEnv_def)
  show ?thesis
    using no_supported_transport_nil_nil [OF n p example_getTransferFormats] n p
      example_getTransferFormats [of 200 "''200 OK''" "exampleResponse [''LongPolling'']"]
    by simp
qed

theorem no_Authorization_empty_access_token_witness:
  "negotiate (exampleEnv 200 ''200 OK'' (exampleResponse [''WebSockets''])) ''https://example.test/hub''
      [Some (WithHTTPHeaders (Some freshPlain))] \<lparr> hdrs = [], trace = [], deferred = [] \<rparr>
   = (Inr (\<lparr> client = Some (exampleServer 200 ''200 OK''), headers = Some freshPlain,
              queryString = None \<rparr>, exampleResponse [''WebSockets'']),
      \<lparr> hdrs = [[], [(''X-Client'', [''go''])]],
        trace = [HTTP_Do \<lparr> Method = ''POST'',
                           URL = \<lparr> Scheme = ''https'', RawQuery = [],
                                   Other = ''//example.test/hub/negotiate'' \<rparr>,
                           Header = Some [(''X-Client'', [''go''])] \<rparr>,
                 Body_ReadAll 0],
        deferred = [Body_Close 0] \<rparr>)
   \<and> Header_Get (snd (freshPlain [[], [(''X-Client'', [''go''])]]))
         (fst (freshPlain [[], [(''X-Client'', [''go''])]])) ''Authorization'' = []
   \<and> WS_Dial ''wss://example.test/hub?access_token=&id=tok'' (Some [(''X-Client'', [''go''])])
       \<in> set (snd (snd (NewHTTPConnection (exampleEnv 200 ''200 OK'' (exampleResponse [''WebSockets'']))
             ''https://example.test/hub'' [Some (WithHTTPHeaders (Some freshPlain))] [])))
   \<and> (\<exists>u. ''wss://example.test/hub?access_token=&id=tok''
            = url_String (exampleEnv 200 ''200 OK'' (exampleResponse [''WebSockets''])) u
          \<and> Values_index (URL_Query u) ''access_token'' = [[]])"
proof -
  note n = example_negotiate [of "[''WebSockets'']"]
  have h: "headers \<lparr> client = Some (exampleServer 200 ''200 OK''), headers = Some freshPlain,
              queryString = None \<rparr> = Some freshPlain"
    by simp
  have g: "Header_Get (snd (freshPlain (hdrs \<lparr> hdrs = [[], [(''X-Client'', [''go''])]],
        trace = [HTTP_Do \<lparr> Method = ''POST'',
                           URL = \<lparr> Scheme = ''https'', RawQuery = [],
                                   Other = ''//example.test/hub/negotiate'' \<rparr>,
                           Header = Some [(''X-Client'', [''go''])] \<rparr>,
                 Body_ReadAll 0],
        deferred = [Body_Close 0] \<rparr>)))
         (fst (freshPlain (hdrs \<lparr> hdrs = [[], [(''X-Client'', [''go''])]],
        trace = [HTTP_Do \<lparr> Method = ''POST'',
                           URL = \<lparr> Scheme = ''https'', RawQuery = [],
                                   Other = ''//example.test/hub/negotiate'' \<rparr>,
                           Header = Some [(''X-Client'', [''go''])] \<rparr>,
                 Body_ReadAll 0],
        deferred = [Body_Close 0] \<rparr>))) ''Authorization'' = []"
    by (simp add: Header_Get_def deref_def freshPlain_def)
  have d: "WS_Dial ''wss://example.test/hub?access_token=&id=tok'' (Some [(''X-Client'', [''go''])])
       \<in> set (snd (snd (NewHTTPConnection (exampleEnv 200 ''200 OK'' (exampleResponse [''WebSockets'']))
             ''https://example.test/hub'' [Some (WithHTTPHeaders (Some freshPlain))] [])))"
    by (simp add: example_ws_run)
  have "\<exists>u. ''wss://example.test/hub?access_token=&id=tok''
            = url_String (exampleEnv 200 ''200 OK'' (exampleResponse [''WebSockets''])) u
          \<and> Values_index (URL_Query u) ''access_token'' = [[]]"
    using no_Authorization_empty_access_token [OF n h g] d by blast
  with n g d show ?thesis by simp
qed

lemma example_configure:
  "configure (exampleEnv code status nr) [Some (WithHTTPHeaders (Some freshPlain))]
     = Inr \<lparr> client = Some (exampleServer code status), headers = Some freshPlain,
             queryString = None \<rparr>"
  by (simp add: configure_def WithHTTPHeaders_def exampleEnv_def)

theorem negotiate_body_closed_read_on_200_witness:
  "configure (exampleEnv 200 ''200 OK'' (exampleResponse [''WebSockets'']))
       [Some (WithHTTPHeaders (Some freshPlain))]
     = Inr \<lparr> client = Some (exampleServer 200 ''200 OK''), headers = Some freshPlain,
             queryString = None \<rparr>
   \<and> HTTP_Do \<lparr> Method = ''POST'',
               URL = \<lparr> Scheme = ''https'', RawQuery = [], Other = ''//example.test/hub/negotiate'' \<rparr>,
               Header = Some [(''X-Client'', [''go''])] \<rparr>
       \<in> set (snd (snd (NewHTTPConnection (exampleEnv 200 ''200 OK'' (exampleResponse [''WebSockets'']))
             ''https://example.test/hub'' [Some (WithHTTPHeaders (Some freshPlain))] [])))
   \<and> call_Do \<lparr> client = Some (exampleServer 200 ''200 OK''), headers = Some freshPlain,
               queryString = None \<rparr>
         \<lparr> Method = ''POST'',
           URL = \<lparr> Scheme = ''https'', RawQuery = [], Other = ''//example.test/hub/negotiate'' \<rparr>,
           Header = Some [(''X-Client'', [''go''])] \<rparr>
       = Inr \<lparr> StatusCode = 200, Status = ''200 OK'', Body = Inr ''{}'' \<rparr>
   \<and> last (snd (snd (NewHTTPConnection (exampleEnv 200 ''200 OK'' (exampleResponse [''WebSockets'']))
             ''https://example.test/hub'' [Some (WithHTTPHeaders (Some freshPlain))] [])))
       = Body_Close 0
   \<and> Body_ReadAll 0
       \<in> set (snd (snd (NewHTTPConnection (exampleEnv 200 ''200 OK'' (exampleResponse [''WebSockets'']))
             ''https://example.test/hub'' [Some (WithHTTPHeaders (Some freshPlain))] [])))"
proof -
  let ?req = "\<lparr> Method = ''POST'',
               URL = \<lparr> Scheme = ''https'', RawQuery = [], Other = ''//example.test/hub/negotiate'' \<rparr>,
               Header = Some [(''X-Client'', [''go''])] \<rparr>"
  have d: "HTTP_Do ?req
       \<in> set (snd (snd (NewHTTPConnection (exampleEnv 200 ''200 OK'' (exampleResponse [''WebSockets'']))
             ''https://example.test/hub'' [Some (WithHTTPHeaders (Some freshPlain))] [])))"
    by (simp add: example_ws_run)
  have m: "Method ?req = ''POST''" by simp
  have c: "call_Do \<lparr> client = Some (exampleServer 200 ''200 OK''), headers = Some freshPlain,
               queryString = None \<rparr> ?req
       = Inr \<lparr> StatusCode = 200, Status = ''200 OK'', Body = Inr ''{}'' \<rparr>"
    by (simp add: call_Do_def exampleServer_def)
  show ?thesis
    using negotiate_body_closed_read_on_200 [OF example_configure d m c] d c
    by (simp add: example_configure)
qed

text \<open>
  Claim C7 as stated fails: against a server that answers the negotiate request with
  status 500, the function obtains a response, returns the error that names method, URL
  and status, and closes the body, but never reads it.
\<close>

theorem non_200_body_closed_undrained:
  "NewHTTPConnection (exampleEnv 500 ''500 Internal Server Error'' (exampleResponse [''WebSockets'']))
      ''https://example.test/hub'' [] []
   = (Inl (Errorf ''POST https://example.test/hub/negotiate -> 500 Internal Server Error''),
      [[]],
      [HTTP_Do \<lparr> Method = ''POST'',
                 URL = \<lparr> Scheme = ''https'', RawQuery = [],
                         Other = ''//example.test/hub/negotiate'' \<rparr>,
                 Header = Some [] \<rparr>,
       Body_Close 0])
   \<and> Body_ReadAll 0
       \<notin> set (snd (snd (NewHTTPConnection
             (exampleEnv 500 ''500 Internal Server Error'' (exampleResponse [''WebSockets'']))
             ''https://example.test/hub'' [] [])))"
proof -
  have "NewHTTPConnection (exampleEnv 500 ''500 Internal Server Error'' (exampleResponse [''WebSockets'']))
      ''https://example.test/hub'' [] []
   = (Inl (Errorf ''POST https://example.test/hub/negotiate -> 500 Internal Server Error''),
      [[]],
      [HTTP_Do \<lparr> Method = ''POST'',
                 URL = \<lparr> Scheme = ''https'', RawQuery = [],
                         Other = ''//example.test/hub/negotiate'' \<rparr>,
                 Header = Some [] \<rparr>,
       Body_Close 0])"
    by code_simp
  then show ?thesis by simp
qed

text \<open>
  Claim C1. With a header provider that builds its header anew on each call and puts
  \<open>Authorization: Bearer XYZ\<close> into it, and a server that advertises \<open>WebSockets\<close>, the
  dial URL carries \<open>access_token=XYZ\<close>, but the header handed to \<open>websocket.Dial\<close> still
  carries \<open>Authorization: Bearer XYZ\<close>: the entry is deleted from the map of one call of
  the provider (the third map of the heap, left empty), and \<open>opts.HTTPHeader\<close> is the map
  of the next call.
\<close>

theorem fresh_header_provider_dial_keeps_Authorization:
  "NewHTTPConnection (exampleEnv 200 ''200 OK'' (exampleResponse [''WebSockets'']))
      ''https://example.test/hub'' [Some (WithHTTPHeaders (Some freshBearer))] []
   = (Inr (Some (''wss://example.test/hub?access_token=XYZ&id=tok'', ''cid'')),
      [[], [(''Authorization'', [''Bearer XYZ''])], [], [(''Authorization'', [''Bearer XYZ''])]],
      [HTTP_Do \<lparr> Method = ''POST'',
                 URL = \<lparr> Scheme = ''https'', RawQuery = [],
                         Other = ''//example.test/hub/negotiate'' \<rparr>,
                 Header = Some [(''Authorization'', [''Bearer XYZ''])] \<rparr>,
       Body_ReadAll 0,
       WS_Dial ''wss://example.test/hub?access_token=XYZ&id=tok''
         (Some [(''Authorization'', [''Bearer XYZ''])]),
       Body_Close 0])"
  by code_simp

end
